theory Spec2Isabelle
  imports Main
begin

section \<open>The JavaScript runtime the widget runs on\<close>

text \<open>
  The widget is TypeScript; its date logic is written against the built-in \<open>Date\<close> object.
  This section models the part of ECMAScript the repository calls: time values, the
  proleptic Gregorian calendar, the \<open>Date\<close> getters and setters, number-to-string
  conversion and \<open>padStart\<close>.

  A \<open>Date\<close> holds a time value: the number of milliseconds since 1970-01-01T00:00Z, or
  \<open>NaN\<close> (an invalid Date). Local time is the time value plus the zone offset \<open>tz\<close>
  (milliseconds, ECMAScript's \<open>LocalTZA\<close>). The offset is a constant of the model: a zone
  with daylight-saving transitions is outside it.
\<close>

subsection \<open>Time values and the calendar\<close>

definition msPerDay :: int where
  "msPerDay = 86400000"

definition maxTimeValue :: int where
  "maxTimeValue = 8640000000000000"

datatype jsdate = InvalidDate | TimeValue int

text \<open>A JavaScript number that is an integer or \<open>NaN\<close> (\<open>None\<close>).\<close>

type_synonym jsnum = "int option"

definition Day :: "int \<Rightarrow> int" where
  "Day t = t div msPerDay"

definition TimeWithinDay :: "int \<Rightarrow> int" where
  "TimeWithinDay t = t mod msPerDay"

text \<open>
  Day number to (year, month, day of month) and back; months count from 0 as in
  JavaScript. Both work on years that start in March, in 400-year eras of 146097 days.
\<close>

definition civil_from_days :: "int \<Rightarrow> int \<times> int \<times> int" where
  "civil_from_days n =
     (let z = n + 719468;
          era = z div 146097;
          doe = z mod 146097;
          n100 = min 3 (doe div 36524);
          r1 = doe - n100 * 36524;
          n4 = r1 div 1461;
          r2 = r1 mod 1461;
          n1 = min 3 (r2 div 365);
          doy = r2 - n1 * 365;
          yoe = n100 * 100 + n4 * 4 + n1;
          mp = (5 * doy + 2) div 153;
          d = doy - (153 * mp + 2) div 5 + 1
      in (yoe + era * 400 + (if mp < 10 then 0 else 1),
          (if mp < 10 then mp + 2 else mp - 10),
          d))"

definition days_from_civil :: "int \<Rightarrow> int \<Rightarrow> int \<Rightarrow> int" where
  "days_from_civil y m d =
     (let y' = y - (if m \<le> 1 then 1 else 0);
          era = y' div 400;
          yoe = y' mod 400;
          mp = (m + 10) mod 12;
          doy = (153 * mp + 2) div 5 + d - 1;
          doe = yoe * 365 + yoe div 4 - yoe div 100 + doy
      in era * 146097 + doe - 719468)"

definition YearFromTime :: "int \<Rightarrow> int" where
  "YearFromTime t = fst (civil_from_days (Day t))"

definition MonthFromTime :: "int \<Rightarrow> int" where
  "MonthFromTime t = fst (snd (civil_from_days (Day t)))"

definition DateFromTime :: "int \<Rightarrow> int" where
  "DateFromTime t = snd (snd (civil_from_days (Day t)))"

definition HourFromTime :: "int \<Rightarrow> int" where
  "HourFromTime t = (t div 3600000) mod 24"

definition MinFromTime :: "int \<Rightarrow> int" where
  "MinFromTime t = (t div 60000) mod 60"

definition SecFromTime :: "int \<Rightarrow> int" where
  "SecFromTime t = (t div 1000) mod 60"

definition msFromTime :: "int \<Rightarrow> int" where
  "msFromTime t = t mod 1000"

definition MakeTime :: "int \<Rightarrow> int \<Rightarrow> int \<Rightarrow> int \<Rightarrow> int" where
  "MakeTime h m s ms = h * 3600000 + m * 60000 + s * 1000 + ms"

text \<open>
  \<open>MakeDay\<close> carries a month outside 0..11 into the year and lets the day of month run
  past either end of the month. ECMAScript answers \<open>NaN\<close> when the year itself is not
  representable; every call in the repository passes a year taken from a valid Date or
  from at most four digits, and \<open>TimeClip\<close> rejects what lies outside the range.
\<close>

definition MakeDay :: "int \<Rightarrow> int \<Rightarrow> int \<Rightarrow> int" where
  "MakeDay year month date =
     days_from_civil (year + month div 12) (month mod 12) 1 + date - 1"

definition MakeDate :: "int \<Rightarrow> int \<Rightarrow> int" where
  "MakeDate day time = day * msPerDay + time"

definition TimeClip :: "int \<Rightarrow> jsdate" where
  "TimeClip t = (if abs t > maxTimeValue then InvalidDate else TimeValue t)"

definition LocalTime :: "int \<Rightarrow> int \<Rightarrow> int" where
  "LocalTime tz t = t + tz"

definition UTC :: "int \<Rightarrow> int \<Rightarrow> int" where
  "UTC tz t = t - tz"

subsection \<open>Date methods\<close>

definition getFullYear :: "int \<Rightarrow> jsdate \<Rightarrow> jsnum" where
  "getFullYear tz d =
     (case d of InvalidDate \<Rightarrow> None | TimeValue t \<Rightarrow> Some (YearFromTime (LocalTime tz t)))"

definition getMonth :: "int \<Rightarrow> jsdate \<Rightarrow> jsnum" where
  "getMonth tz d =
     (case d of InvalidDate \<Rightarrow> None | TimeValue t \<Rightarrow> Some (MonthFromTime (LocalTime tz t)))"

definition getDate :: "int \<Rightarrow> jsdate \<Rightarrow> jsnum" where
  "getDate tz d =
     (case d of InvalidDate \<Rightarrow> None | TimeValue t \<Rightarrow> Some (DateFromTime (LocalTime tz t)))"

definition num_add :: "jsnum \<Rightarrow> jsnum \<Rightarrow> jsnum" where
  "num_add a b = (case (a, b) of (Some x, Some y) \<Rightarrow> Some (x + y) | _ \<Rightarrow> None)"

definition num_sub :: "jsnum \<Rightarrow> jsnum \<Rightarrow> jsnum" where
  "num_sub a b = (case (a, b) of (Some x, Some y) \<Rightarrow> Some (x - y) | _ \<Rightarrow> None)"

text \<open>\<open>date.setHours(h, m, s, ms)\<close>: the local day is kept, the time of day replaced.\<close>

definition setHours :: "int \<Rightarrow> jsdate \<Rightarrow> int \<Rightarrow> int \<Rightarrow> int \<Rightarrow> int \<Rightarrow> jsdate" where
  "setHours tz d h m s ms =
     (case d of
        InvalidDate \<Rightarrow> InvalidDate
      | TimeValue t \<Rightarrow>
          TimeClip (UTC tz (MakeDate (Day (LocalTime tz t)) (MakeTime h m s ms))))"

text \<open>\<open>date.setDate(dt)\<close>: year, month and time of day are kept, the day of month replaced.\<close>

definition setDate :: "int \<Rightarrow> jsdate \<Rightarrow> jsnum \<Rightarrow> jsdate" where
  "setDate tz d dt =
     (case d of
        InvalidDate \<Rightarrow> InvalidDate
      | TimeValue t \<Rightarrow>
          (case dt of
             None \<Rightarrow> InvalidDate
           | Some n \<Rightarrow>
               (let l = LocalTime tz t
                in TimeClip (UTC tz (MakeDate (MakeDay (YearFromTime l) (MonthFromTime l) n)
                                              (TimeWithinDay l))))))"

text \<open>
  \<open>new Date(y, m, d)\<close>: local midnight of the given day; a year from 0 to 99 means
  1900 + year.
\<close>

definition new_Date_ymd :: "int \<Rightarrow> jsnum \<Rightarrow> jsnum \<Rightarrow> jsnum \<Rightarrow> jsdate" where
  "new_Date_ymd tz y m d =
     (case (y, m, d) of
        (Some yv, Some mv, Some dv) \<Rightarrow>
          (let yr = (if 0 \<le> yv \<and> yv \<le> 99 then 1900 + yv else yv)
           in TimeClip (UTC tz (MakeDate (MakeDay yr mv dv) (MakeTime 0 0 0 0))))
      | _ \<Rightarrow> InvalidDate)"

text \<open>Relational operators on Dates compare the time values; with \<open>NaN\<close> they are false.\<close>

definition date_le :: "jsdate \<Rightarrow> jsdate \<Rightarrow> bool" where
  "date_le a b = (case (a, b) of (TimeValue x, TimeValue y) \<Rightarrow> x \<le> y | _ \<Rightarrow> False)"

definition date_lt :: "jsdate \<Rightarrow> jsdate \<Rightarrow> bool" where
  "date_lt a b = (case (a, b) of (TimeValue x, TimeValue y) \<Rightarrow> x < y | _ \<Rightarrow> False)"

definition date_gt :: "jsdate \<Rightarrow> jsdate \<Rightarrow> bool" where
  "date_gt a b = date_lt b a"

definition isNaN_time :: "jsdate \<Rightarrow> bool" where
  "isNaN_time d = (d = InvalidDate)"

subsection \<open>Day boundaries, as the specification words them\<close>

text \<open>
  The time value of local midnight of the day \<open>t\<close> falls on, of the last millisecond of
  that day, and the predicate "\<open>t\<close> lies at least \<open>k\<close> days inside the range of
  representable time values".
\<close>

definition dayStart :: "int \<Rightarrow> int \<Rightarrow> int" where
  "dayStart tz t = Day (t + tz) * msPerDay - tz"

definition dayEnd :: "int \<Rightarrow> int \<Rightarrow> int" where
  "dayEnd tz t = dayStart tz t + msPerDay - 1"

definition within_days :: "int \<Rightarrow> int \<Rightarrow> bool" where
  "within_days k t \<longleftrightarrow> abs t + k * msPerDay \<le> maxTimeValue"

section \<open>DateRangeCalculator (services/DateRangeCalculator.ts)\<close>

datatype DateRangeType = Last7Days | Last30Days | Last90Days | Custom

record DateRangeBounds =
  startDate :: jsdate
  endDate :: jsdate

record IDateRange = DateRangeBounds +
  range_type :: DateRangeType

definition subtractDays :: "int \<Rightarrow> jsdate \<Rightarrow> int \<Rightarrow> jsdate" where
  "subtractDays tz date days = setDate tz date (num_sub (getDate tz date) (Some days))"

text \<open>\<open>now\<close> is the time value \<open>new Date()\<close> returns when the method runs.\<close>

definition calculateDateRange :: "int \<Rightarrow> int \<Rightarrow> DateRangeType \<Rightarrow> IDateRange" where
  "calculateDateRange tz now rangeType =
     (let today = setHours tz (TimeValue now) 23 59 59 999;
          endD = today;
          startD = (case rangeType of
                      Last7Days \<Rightarrow> subtractDays tz today 7
                    | Last30Days \<Rightarrow> subtractDays tz today 30
                    | Last90Days \<Rightarrow> subtractDays tz today 90
                    | Custom \<Rightarrow> today)
      in \<lparr>startDate = setHours tz startD 0 0 0 0, endDate = endD, range_type = rangeType\<rparr>)"

definition createCustomRange :: "int \<Rightarrow> jsdate \<Rightarrow> jsdate \<Rightarrow> IDateRange" where
  "createCustomRange tz s e =
     \<lparr>startDate = setHours tz s 0 0 0 0,
      endDate = setHours tz e 23 59 59 999,
      range_type = Custom\<rparr>"

text \<open>
  The argument is \<open>None\<close> for a null range. A Date object is truthy even when invalid,
  so the two field guards of the source never fire on a range of the declared type.
\<close>

definition isValidDateRange :: "IDateRange option \<Rightarrow> bool" where
  "isValidDateRange dateRange =
     (case dateRange of
        None \<Rightarrow> False
      | Some r \<Rightarrow> date_le (startDate r) (endDate r))"

text \<open>The number of days a preset reaches back: the constants of the \<open>switch\<close>.\<close>

definition preset_days :: "DateRangeType \<Rightarrow> int" where
  "preset_days rt = (case rt of Last7Days \<Rightarrow> 7 | Last30Days \<Rightarrow> 30 | Last90Days \<Rightarrow> 90 | Custom \<Rightarrow> 0)"

section \<open>DateUtils of the single-file visual\<close>

datatype PredefinedRange = LATEST_7_DAYS | LATEST_30_DAYS | LATEST_90_DAYS | CUSTOM

text \<open>The numeric value of the enum member, which \<open>getDateRange\<close> subtracts.\<close>

definition range_value :: "PredefinedRange \<Rightarrow> int" where
  "range_value r =
     (case r of LATEST_7_DAYS \<Rightarrow> 7 | LATEST_30_DAYS \<Rightarrow> 30 | LATEST_90_DAYS \<Rightarrow> 90 | CUSTOM \<Rightarrow> 0)"

text \<open>\<open>maxDate\<close> is \<open>None\<close> when the optional argument is missing.\<close>

definition getDateRange :: "int \<Rightarrow> int \<Rightarrow> PredefinedRange \<Rightarrow> jsdate option \<Rightarrow> DateRangeBounds" where
  "getDateRange tz now rng maxDate =
     (let endD = (case maxDate of Some d \<Rightarrow> d | None \<Rightarrow> TimeValue now);
          startD = endD;
          startD' = (if rng \<noteq> CUSTOM
                     then setDate tz startD (num_sub (getDate tz endD) (Some (range_value rng)))
                     else startD)
      in \<lparr>startDate = startD', endDate = endD\<rparr>)"

definition isValidDateRange_utils :: "jsdate \<Rightarrow> jsdate \<Rightarrow> bool" where
  "isValidDateRange_utils s e = date_le s e"

section \<open>Strings of the runtime\<close>

text \<open>The decimal digit for a number below ten.\<close>

definition digit_char :: "nat \<Rightarrow> char" where
  "digit_char n = ''0123456789'' ! n"

fun string_of_nat :: "nat \<Rightarrow> string" where
  "string_of_nat n =
     (if n < 10 then [digit_char n]
      else string_of_nat (n div 10) @ [digit_char (n mod 10)])"

declare string_of_nat.simps [simp del]

text \<open>\<open>String(n)\<close>, also what a template literal inserts, for an integer or \<open>NaN\<close>.\<close>

definition String_num :: "jsnum \<Rightarrow> string" where
  "String_num n =
     (case n of
        None \<Rightarrow> ''NaN''
      | Some i \<Rightarrow> (if i < 0 then CHR ''-'' # string_of_nat (nat (- i)) else string_of_nat (nat i)))"

definition padStart :: "string \<Rightarrow> nat \<Rightarrow> char \<Rightarrow> string" where
  "padStart s n c = replicate (n - length s) c @ s"

definition is_digit :: "char \<Rightarrow> bool" where
  "is_digit c \<longleftrightarrow> c \<in> set ''0123456789''"

text \<open>The value of a decimal digit: its place in \<open>0123456789\<close>.\<close>

definition digit_value :: "char \<Rightarrow> nat" where
  "digit_value c = length (takeWhile (\<lambda>d. d \<noteq> c) ''0123456789'')"

text \<open>Unary plus on a string of decimal digits (a regular-expression group of \<open>\d\<close>).\<close>

definition to_number :: "string \<Rightarrow> int" where
  "to_number s = int (foldl (\<lambda>acc c. 10 * acc + digit_value c) 0 s)"

text \<open>
  \<open>trim\<close> removes white space and line terminators at both ends. A character of the
  model is a code unit below 256, and among those \<open>trim\<close> strips the space, tab, line
  feed, vertical tab, form feed, carriage return and the no-break space U+00A0. The
  code units from 256 on, with their further spaces, are outside the model.
\<close>

definition is_space :: "char \<Rightarrow> bool" where
  "is_space c \<longleftrightarrow>
     c \<in> set [CHR '' '', CHR 0x09, CHR 0x0A, CHR 0x0B, CHR 0x0C, CHR 0x0D, CHR 0xA0]"

definition trim :: "string \<Rightarrow> string" where
  "trim s = rev (dropWhile is_space (rev (dropWhile is_space s)))"

text \<open>\<open>a || b\<close> on strings, where the empty string stands for undefined as well.\<close>

definition js_or :: "string \<Rightarrow> string \<Rightarrow> string" where
  "js_or a b = (if a \<noteq> [] then a else b)"

fun split_on :: "char \<Rightarrow> string \<Rightarrow> string list" where
  "split_on c [] = [[]]"
| "split_on c (x # xs) =
     (if x = c then [] # split_on c xs
      else (let ps = split_on c xs in (x # hd ps) # tl ps))"

text \<open>\<open>parts[i]\<close>; an index past the end gives undefined, the empty string under \<open>||\<close>.\<close>

definition part :: "string list \<Rightarrow> nat \<Rightarrow> string" where
  "part ps i = (if i < length ps then ps ! i else [])"

text \<open>
  \<open>toISOString\<close>: the UTC fields, a trailing \<open>Z\<close>, a year outside 0..9999 written with a
  sign and six digits. It throws a RangeError on an invalid Date: \<open>None\<close>.
\<close>

definition pad_int :: "nat \<Rightarrow> int \<Rightarrow> string" where
  "pad_int n i = padStart (string_of_nat (nat i)) n (CHR ''0'')"

definition iso_year :: "int \<Rightarrow> string" where
  "iso_year y =
     (if 0 \<le> y \<and> y \<le> 9999 then pad_int 4 y
      else (if y < 0 then CHR ''-'' else CHR ''+'') # pad_int 6 (abs y))"

definition toISOString :: "jsdate \<Rightarrow> string option" where
  "toISOString d =
     (case d of
        InvalidDate \<Rightarrow> None
      | TimeValue t \<Rightarrow>
          Some (iso_year (YearFromTime t) @ ''-'' @ pad_int 2 (MonthFromTime t + 1) @ ''-'' @
                pad_int 2 (DateFromTime t) @ ''T'' @ pad_int 2 (HourFromTime t) @ '':'' @
                pad_int 2 (MinFromTime t) @ '':'' @ pad_int 2 (SecFromTime t) @ ''.'' @
                pad_int 3 (msFromTime t) @ ''Z''))"

section \<open>DateUtils: formatting, parsing and the min/max scan\<close>

text \<open>\<open>formatDate\<close> of the single-file visual; \<open>None\<close> is a null argument.\<close>

definition formatDate :: "int \<Rightarrow> jsdate option \<Rightarrow> string" where
  "formatDate tz date =
     (case date of
        None \<Rightarrow> []
      | Some dt \<Rightarrow>
          (let y = String_num (getFullYear tz dt);
               m = padStart (String_num (num_add (getMonth tz dt) (Some 1))) 2 (CHR ''0'');
               d = padStart (String_num (getDate tz dt)) 2 (CHR ''0'')
           in y @ ''-'' @ m @ ''-'' @ d))"

text \<open>
  A value of type \<open>any\<close> as \<open>parseDate\<close> sees it: a falsy value (null, undefined, false,
  0, NaN or the empty string), a Date, a string, or any other truthy value, given by
  what \<open>String()\<close> makes of it.
\<close>

datatype js_any = Falsy | DateObj jsdate | Str string | Other string

text \<open>\<open>/^(\d{4})-(\d{2})-(\d{2})/\<close>: a prefix of the string.\<close>

definition match_iso :: "string \<Rightarrow> (string \<times> string \<times> string) option" where
  "match_iso s =
     (let y = take 4 s; m = take 2 (drop 5 s); d = take 2 (drop 8 s)
      in if length s \<ge> 10 \<and> list_all is_digit y \<and> s ! 4 = CHR ''-'' \<and> list_all is_digit m
            \<and> s ! 7 = CHR ''-'' \<and> list_all is_digit d
         then Some (y, m, d) else None)"

text \<open>
  \<open>/^(\d{1,2})\/(\d{1,2})\/(\d{4})$/\<close>: the whole string. A group of digits is followed
  by a slash, so it is the whole run of digits there, of length one or two.
\<close>

definition match_slash :: "string \<Rightarrow> (string \<times> string \<times> string) option" where
  "match_slash s =
     (let a = takeWhile is_digit s; r1 = dropWhile is_digit s;
          b = takeWhile is_digit (drop 1 r1); r2 = dropWhile is_digit (drop 1 r1);
          y = drop 1 r2
      in if length a \<in> {1, 2} \<and> take 1 r1 = ''/'' \<and> length b \<in> {1, 2} \<and> take 1 r2 = ''/''
            \<and> length y = 4 \<and> list_all is_digit y
         then Some (a, b, y) else None)"

text \<open>
  The body of \<open>parseDate\<close> on the trimmed text. \<open>native\<close> is \<open>new Date(s)\<close> on a string,
  which is left to the engine for every text that reaches it here.
\<close>

definition parse_text :: "int \<Rightarrow> (string \<Rightarrow> jsdate) \<Rightarrow> string \<Rightarrow> jsdate" where
  "parse_text tz native s =
     (case match_iso s of
        Some (y, m, d) \<Rightarrow>
          new_Date_ymd tz (Some (to_number y)) (Some (to_number m - 1)) (Some (to_number d))
      | None \<Rightarrow>
          (case match_slash s of
             Some (g1, g2, g3) \<Rightarrow>
               (let a = to_number g1; b = to_number g2; y = to_number g3;
                    ddFirst = (a > 12);
                    d = (if ddFirst then a else b);
                    mo = (if ddFirst then b else a)
                in new_Date_ymd tz (Some y) (Some (mo - 1)) (Some d))
           | None \<Rightarrow>
               (let d = native s
                in if isNaN_time d then InvalidDate
                   else new_Date_ymd tz (getFullYear tz d) (getMonth tz d) (getDate tz d))))"

definition parseDate :: "int \<Rightarrow> (string \<Rightarrow> jsdate) \<Rightarrow> js_any \<Rightarrow> jsdate" where
  "parseDate tz native input =
     (case input of
        Falsy \<Rightarrow> InvalidDate
      | DateObj d \<Rightarrow> new_Date_ymd tz (getFullYear tz d) (getMonth tz d) (getDate tz d)
      | Str s \<Rightarrow> (if s = [] then InvalidDate else parse_text tz native (trim s))
      | Other s \<Rightarrow> parse_text tz native (trim s))"

record MinMaxDates =
  minDate :: "jsdate option"
  maxDate :: "jsdate option"

text \<open>One round of the loop; \<open>parse\<close> is the conversion the loop applies to an element.\<close>

definition minmax_step :: "('a \<Rightarrow> jsdate) \<Rightarrow> MinMaxDates \<Rightarrow> 'a \<Rightarrow> MinMaxDates" where
  "minmax_step parse acc v =
     (let dt = parse v
      in if \<not> isNaN_time dt
         then \<lparr>minDate = (case minDate acc of
                             None \<Rightarrow> Some dt
                           | Some mn \<Rightarrow> if date_lt dt mn then Some dt else Some mn),
               maxDate = (case maxDate acc of
                             None \<Rightarrow> Some dt
                           | Some mx \<Rightarrow> if date_gt dt mx then Some dt else Some mx)\<rparr>
         else acc)"

text \<open>The array is \<open>None\<close> when the caller passes null or undefined.\<close>

definition findMinMaxDates ::
    "int \<Rightarrow> (string \<Rightarrow> jsdate) \<Rightarrow> js_any list option \<Rightarrow> MinMaxDates" where
  "findMinMaxDates tz native arr =
     (case arr of
        None \<Rightarrow> \<lparr>minDate = None, maxDate = None\<rparr>
      | Some xs \<Rightarrow>
          (if xs = [] then \<lparr>minDate = None, maxDate = None\<rparr>
           else foldl (minmax_step (parseDate tz native)) \<lparr>minDate = None, maxDate = None\<rparr> xs))"

text \<open>
  The DirectQuery revision of the visual scans with \<open>new Date(item)\<close> in place of
  \<open>parseDate\<close>; the constructor on an arbitrary value is the parameter \<open>newDate\<close>.
\<close>

definition findMinMaxDates_dq :: "('a \<Rightarrow> jsdate) \<Rightarrow> 'a list option \<Rightarrow> MinMaxDates" where
  "findMinMaxDates_dq newDate arr =
     (case arr of
        None \<Rightarrow> \<lparr>minDate = None, maxDate = None\<rparr>
      | Some xs \<Rightarrow>
          (if length xs = 0 then \<lparr>minDate = None, maxDate = None\<rparr>
           else foldl (minmax_step newDate) \<lparr>minDate = None, maxDate = None\<rparr> xs))"

section \<open>The host and what it can be asked to do\<close>

record FilterTarget =
  table :: string
  column :: string

record Condition =
  operator :: string
  cond_value :: string

text \<open>
  The filter object handed to the host. \<open>schema\<close> is its \<open>$schema\<close> property and
  \<open>filterType\<close> the property of that name, \<open>None\<close> where the object has none.
\<close>

record FilterDescriptor =
  schema :: string
  target :: FilterTarget
  logicalOperator :: string
  conditions :: "Condition list"
  filterType :: "nat option"

datatype host_call =
    FilterManager_applyFilter FilterDescriptor
  | FilterManager_clear
  | ApplyJsonFilter "FilterDescriptor option" string string nat
  | CreateSelectionManager
  | SelectionManager_clear

text \<open>
  The host object: which optional capabilities it has, and for each call whether the
  host throws (\<open>Some\<close> of the error's message) or returns. A host that is null has no
  capability.
\<close>

record host =
  has_createSelectionManager :: bool
  has_filterManager_applyFilter :: bool
  has_filterManager_clear :: bool
  has_applyJsonFilter :: bool
  has_selectionManager_clear :: bool
  throws :: "host_call \<Rightarrow> string option"

text \<open>
  What a method does that its caller or the user can observe, in order: a call of the
  host, a message shown to the user, a line on the console, a line of the visual's
  debug logger (\<open>logInfo\<close>, \<open>logError\<close>).
\<close>

datatype event =
    HostCall host_call
  | ShowError string
  | ShowSuccess string
  | ConsoleLog string
  | ConsoleWarn string
  | ConsoleError string
  | DebugInfo string
  | DebugError string

text \<open>
  A block of statements that may throw: the events it produced, and either the message
  of the error that ended it or its value.
\<close>

type_synonym 'a prog = "event list \<times> (string + 'a)"

definition ret :: "'a \<Rightarrow> 'a prog" where
  "ret v = ([], Inr v)"

definition emit :: "event \<Rightarrow> unit prog" where
  "emit e = ([e], Inr ())"

definition raise :: "string \<Rightarrow> 'a prog" where
  "raise msg = ([], Inl msg)"

definition bind :: "'a prog \<Rightarrow> ('a \<Rightarrow> 'b prog) \<Rightarrow> 'b prog" where
  "bind p f =
     (case snd p of
        Inl e \<Rightarrow> (fst p, Inl e)
      | Inr v \<Rightarrow> (let q = f v in (fst p @ fst q, snd q)))"

text \<open>Calling a method of the host: the call is made, then it returns or throws.\<close>

definition invoke :: "host \<Rightarrow> host_call \<Rightarrow> unit prog" where
  "invoke h c = ([HostCall c], (case throws h c of Some msg \<Rightarrow> Inl msg | None \<Rightarrow> Inr ()))"

text \<open>
  \<open>host.applyJsonFilter(...)\<close> with no check that the method exists: a TypeError when it
  does not.
\<close>

definition call_applyJsonFilter :: "host \<Rightarrow> host_call \<Rightarrow> unit prog" where
  "call_applyJsonFilter h c =
     (if has_applyJsonFilter h then invoke h c else raise ''TypeError'')"

definition try_catch :: "'a prog \<Rightarrow> (string \<Rightarrow> event list) \<Rightarrow> event list" where
  "try_catch p handler =
     (case snd p of Inl e \<Rightarrow> fst p @ handler e | Inr v \<Rightarrow> fst p)"

definition host_calls :: "event list \<Rightarrow> host_call list" where
  "host_calls evs = concat (map (\<lambda>e. case e of HostCall c \<Rightarrow> [c] | _ \<Rightarrow> []) evs)"

section \<open>FilterService of the single-file visual\<close>

record IDateColumnInfo =
  displayName :: string
  queryName :: string

text \<open>
  \<open>/^(.+)\[(.+)\]$/\<close>: the dot matches any character but a line terminator, and the
  first group is greedy, so it ends at the last opening bracket that leaves both groups
  non-empty.
\<close>

definition is_line_terminator :: "char \<Rightarrow> bool" where
  "is_line_terminator c \<longleftrightarrow> c = CHR 0x0A \<or> c = CHR 0x0D"

definition match_bracket :: "string \<Rightarrow> (string \<times> string) option" where
  "match_bracket s =
     (let n = length s
      in if n < 4 \<or> last s \<noteq> CHR '']'' \<or> list_ex is_line_terminator s then None
         else (case filter (\<lambda>i. s ! i = CHR ''['') (rev [1..<n - 2]) of
                 [] \<Rightarrow> None
               | i # _ \<Rightarrow> Some (take i s, take (n - 2 - i) (drop (i + 1) s))))"

definition getTargetFromQueryName :: "string \<Rightarrow> string \<Rightarrow> FilterTarget" where
  "getTargetFromQueryName qn dn =
     (if qn = [] then \<lparr>table = ''Table'', column = js_or dn ''Date''\<rparr>
      else if CHR ''.'' \<in> set qn
      then (let parts = split_on (CHR ''.'') qn
            in \<lparr>table = part parts 0, column = js_or (part parts 1) (js_or dn ''Date'')\<rparr>)
      else (case match_bracket qn of
              Some (t, c) \<Rightarrow> \<lparr>table = t, column = c\<rparr>
            | None \<Rightarrow> \<lparr>table = ''Table'', column = js_or dn qn\<rparr>))"

definition formatDateForDirectQuery :: "int \<Rightarrow> jsdate \<Rightarrow> bool \<Rightarrow> string" where
  "formatDateForDirectQuery tz date isStart =
     (let y = String_num (getFullYear tz date);
          m = padStart (String_num (num_add (getMonth tz date) (Some 1))) 2 (CHR ''0'');
          d = padStart (String_num (getDate tz date)) 2 (CHR ''0'')
      in if isStart then y @ ''-'' @ m @ ''-'' @ d @ ''T00:00:00.000''
         else y @ ''-'' @ m @ ''-'' @ d @ ''T23:59:59.999'')"

text \<open>
  \<open>new models.AdvancedFilter(target, "And", conditions)\<close> of the powerbi-models library
  keeps its three arguments; the schema URL and the filter type 0 are the library's own.
\<close>

definition models_AdvancedFilter ::
    "FilterTarget \<Rightarrow> string \<Rightarrow> Condition list \<Rightarrow> FilterDescriptor" where
  "models_AdvancedFilter tg lop conds =
     \<lparr>schema = ''http://powerbi.com/product/schema#advanced'', target = tg,
      logicalOperator = lop, conditions = conds, filterType = Some 0\<rparr>"

definition createAdvancedFilter ::
    "int \<Rightarrow> IDateColumnInfo option \<Rightarrow> DateRangeBounds \<Rightarrow> FilterDescriptor option" where
  "createAdvancedFilter tz dateColumn dateRange =
     (case dateColumn of
        None \<Rightarrow> None
      | Some col \<Rightarrow>
          (let targetObj = getTargetFromQueryName (queryName col) (displayName col);
               tg = \<lparr>table = table targetObj, column = column targetObj\<rparr>;
               start = formatDateForDirectQuery tz (startDate dateRange) True;
               end' = formatDateForDirectQuery tz (endDate dateRange) False;
               conds = [\<lparr>operator = ''GreaterThanOrEqual'', cond_value = start\<rparr>,
                        \<lparr>operator = ''LessThanOrEqual'', cond_value = end'\<rparr>]
           in Some (models_AdvancedFilter tg ''And'' conds)))"

text \<open>
  \<open>applyFilter\<close>; \<open>dateColumn\<close> is the field \<open>setDateColumn\<close> last stored. The action
  code is \<open>FilterAction.merge\<close>, 0, which is also the fallback the source writes.
\<close>

definition applyFilter :: "int \<Rightarrow> host \<Rightarrow> IDateColumnInfo option \<Rightarrow> DateRangeBounds \<Rightarrow> event list" where
  "applyFilter tz h dateColumn dateRange =
     (case dateColumn of
        None \<Rightarrow> [ShowError ''Unable to apply filter - add a date field'']
      | Some col \<Rightarrow>
          try_catch
            (case createAdvancedFilter tz dateColumn dateRange of
               None \<Rightarrow> emit (ShowError ''Filter couldn't be built'')
             | Some f \<Rightarrow>
                 bind (call_applyJsonFilter h (ApplyJsonFilter (Some f) ''general'' ''filter'' 0))
                   (\<lambda>_. emit (ShowSuccess ''Filter applied successfully!'')))
            (\<lambda>e. [ConsoleError e, ShowError ''Error applying filter.'']))"

definition clearFilter :: "host \<Rightarrow> event list" where
  "clearFilter h =
     try_catch
       (bind (call_applyJsonFilter h (ApplyJsonFilter None ''general'' ''filter'' 1))
          (\<lambda>_. emit (ShowSuccess ''All filters cleared - showing full data'')))
       (\<lambda>e. [ConsoleError e, ShowError ''Error clearing filters.''])"

section \<open>FilterService of the DirectQuery revision\<close>

definition createAdvancedFilter_dq ::
    "int \<Rightarrow> IDateColumnInfo option \<Rightarrow> DateRangeBounds \<Rightarrow> FilterDescriptor option" where
  "createAdvancedFilter_dq tz dateColumn dateRange =
     (case dateColumn of
        None \<Rightarrow> None
      | Some col \<Rightarrow>
          (let qn = js_or (queryName col) (displayName col);
               tableName = (if CHR ''.'' \<in> set qn then part (split_on (CHR ''.'') qn) 0
                            else ''Table'');
               columnName = (if CHR ''.'' \<in> set qn then part (split_on (CHR ''.'') qn) 1
                             else qn)
           in Some \<lparr>schema = ''http://powerbi.com/product/schema#advanced'',
                    target = \<lparr>table = tableName, column = columnName\<rparr>,
                    logicalOperator = ''And'',
                    conditions =
                      [\<lparr>operator = ''GreaterThanOrEqual'',
                        cond_value = formatDateForDirectQuery tz (startDate dateRange) True\<rparr>,
                       \<lparr>operator = ''LessThanOrEqual'',
                        cond_value = formatDateForDirectQuery tz (endDate dateRange) False\<rparr>],
                    filterType = Some 6\<rparr>))"

text \<open>
  \<open>clearFilter\<close> of this revision: three methods in one \<open>try\<close> block. The value threaded
  through the block is the flag \<open>filterCleared\<close>.
\<close>

definition clearFilter_dq_body :: "host \<Rightarrow> unit prog" where
  "clearFilter_dq_body h =
     bind (emit (ConsoleLog ''Clearing all filters to restore full data access''))
     (\<lambda>_. bind (if has_filterManager_clear h
                 then bind (invoke h FilterManager_clear)
                        (\<lambda>_. bind (emit (ConsoleLog ''Filters cleared using filterManager.clear()''))
                        (\<lambda>_. ret True))
                 else ret False)
     (\<lambda>cleared1. bind (if has_applyJsonFilter h
                 then bind (invoke h (ApplyJsonFilter None ''general'' ''filter'' 1))
                        (\<lambda>_. bind (invoke h (ApplyJsonFilter None ''advanced'' ''filter'' 1))
                        (\<lambda>_. bind (emit (ConsoleLog ''Filters cleared using applyJsonFilter(null)''))
                        (\<lambda>_. ret True)))
                 else ret cleared1)
     (\<lambda>filterCleared. bind (if has_createSelectionManager h
                 then bind (invoke h CreateSelectionManager)
                        (\<lambda>_. if has_selectionManager_clear h
                              then bind (invoke h SelectionManager_clear)
                                     (\<lambda>_. emit (ConsoleLog ''Selection manager cleared''))
                              else ret ())
                 else ret ())
     (\<lambda>_. if filterCleared
           then bind (emit (ShowSuccess ''All filters cleared - showing full data''))
                  (\<lambda>_. emit (ConsoleLog
                     ''All filters cleared successfully - full dataset should now be accessible''))
           else bind (emit (ShowError ''Unable to clear filters - API not available''))
                  (\<lambda>_. emit (ConsoleWarn ''No filter clearing methods were available''))))))"

definition clearFilter_dq :: "host \<Rightarrow> event list" where
  "clearFilter_dq h =
     try_catch (clearFilter_dq_body h)
       (\<lambda>e. [ConsoleError (''Clear filter error: '' @ e),
              ShowError (''Error clearing filters: '' @ e)])"

section \<open>FilterManager (services/FilterManager.ts) and its caller\<close>

record SQSource =
  entity :: string

record SQExpr =
  source :: "SQSource option"

text \<open>
  A metadata column of the data view. \<open>role_date\<close> and \<open>role_category\<close> say that
  \<open>roles\<close> is present with that role truthy, \<open>type_dateTime\<close> and \<open>type_date\<close> that
  \<open>type\<close> is present with that flag truthy; a missing \<open>displayName\<close>, \<open>queryName\<close> or
  \<open>entity\<close> is the empty string.
\<close>

record MetadataColumn =
  col_displayName :: string
  col_queryName :: string
  role_date :: bool
  role_category :: bool
  type_dateTime :: bool
  type_date :: bool
  col_expr :: "SQExpr option"

record CategoryColumn =
  cat_source :: MetadataColumn
  cat_values :: "js_any list"

text \<open>
  \<open>metadata_columns\<close> is \<open>None\<close> when \<open>metadata\<close> or its \<open>columns\<close> is missing,
  \<open>categories\<close> is \<open>None\<close> when \<open>categorical\<close> or its \<open>categories\<close> is.
\<close>

record DataView =
  metadata_columns :: "MetadataColumn list option"
  categories :: "CategoryColumn list option"

record FilterManager =
  dateColumnTarget :: "SQExpr option"
  dateColumnName :: "string option"
  tableQualifiedName :: "string option"

text \<open>The state of \<open>new FilterManager()\<close>.\<close>

definition FilterManager_init :: FilterManager where
  "FilterManager_init =
     \<lparr>dateColumnTarget = None, dateColumnName = None, tableQualifiedName = None\<rparr>"

text \<open>\<open>hasDateColumn\<close> returns its answer and leaves the manager in a new state.\<close>

definition hasDateColumn :: "FilterManager \<Rightarrow> DataView option \<Rightarrow> bool \<times> FilterManager" where
  "hasDateColumn fm dataView =
     (case dataView of
        None \<Rightarrow> (False, fm)
      | Some dv \<Rightarrow>
          (case metadata_columns dv of
             None \<Rightarrow> (False, fm)
           | Some cols \<Rightarrow>
               (case find type_dateTime cols of
                  None \<Rightarrow> (False, fm)
                | Some dateColumn \<Rightarrow>
                    (case col_expr dateColumn of
                       None \<Rightarrow> (False, fm)
                     | Some e \<Rightarrow>
                         (True,
                          fm\<lparr>dateColumnTarget := Some e,
                             dateColumnName := Some (js_or (col_displayName dateColumn) ''Date''),
                             tableQualifiedName :=
                               (case source e of
                                  Some src \<Rightarrow> Some (js_or (entity src) ''Table'')
                                | None \<Rightarrow> tableQualifiedName fm)\<rparr>)))))"

definition FilterManager_isValidDateRange :: "IDateRange \<Rightarrow> bool" where
  "FilterManager_isValidDateRange dateRange = date_le (startDate dateRange) (endDate dateRange)"

text \<open>
  \<open>applyDateFilter\<close>. Each of the three fields is falsy when null, the two names
  also when empty. The action code is \<open>FilterAction.merge\<close>, 0. The text of the last
  log line also names the two dates; the model keeps its fixed part.
\<close>

definition applyDateFilter :: "FilterManager \<Rightarrow> IDateRange \<Rightarrow> host \<Rightarrow> event list" where
  "applyDateFilter fm dateRange h =
     try_catch
       (case (dateColumnTarget fm, dateColumnName fm, tableQualifiedName fm) of
          (Some tg, Some columnName, Some tableName) \<Rightarrow>
            (if columnName = [] \<or> tableName = []
             then emit (ConsoleWarn ''No date column available for filtering'')
             else if \<not> FilterManager_isValidDateRange dateRange
             then emit (ConsoleError ''Invalid date range provided for filtering'')
             else (case toISOString (startDate dateRange) of
                     None \<Rightarrow> raise ''RangeError''
                   | Some startValue \<Rightarrow>
                       (case toISOString (endDate dateRange) of
                          None \<Rightarrow> raise ''RangeError''
                        | Some endValue \<Rightarrow>
                            (let filter =
                                   \<lparr>schema = ''https://powerbi.com/product/schema#advanced'',
                                    target = \<lparr>table = tableName, column = columnName\<rparr>,
                                    logicalOperator = ''And'',
                                    conditions =
                                      [\<lparr>operator = ''GreaterThanOrEqual'',
                                        cond_value = startValue\<rparr>,
                                       \<lparr>operator = ''LessThanOrEqual'',
                                        cond_value = endValue\<rparr>],
                                    filterType = None\<rparr>
                             in bind (call_applyJsonFilter h
                                        (ApplyJsonFilter (Some filter) ''general'' ''filter'' 0))
                                  (\<lambda>_. emit (ConsoleLog ''Applied date filter''))))))
        | _ \<Rightarrow> emit (ConsoleWarn ''No date column available for filtering''))
       (\<lambda>e. [ConsoleError (''Error applying date filter: '' @ e)])"

text \<open>
  The visual's \<open>update\<close> as far as the filter manager goes
  (\<open>checkDateColumnAvailability\<close>): the first data view, when there is one, is shown to
  \<open>hasDateColumn\<close>.
\<close>

definition checkDateColumnAvailability :: "FilterManager \<Rightarrow> DataView list \<Rightarrow> FilterManager" where
  "checkDateColumnAvailability fm dataViews =
     (case dataViews of
        [] \<Rightarrow> fm
      | dv # _ \<Rightarrow> snd (hasDateColumn fm (Some dv)))"

text \<open>
  The visual's \<open>handleApplyFilter\<close>: the calculator's validity gate, then the filter
  manager, then the line the debug logger gets whatever the filter manager did. The
  text of that line also names the two dates; the model keeps its fixed part. The
  update of the range display, which calls no host capability, is left out.
\<close>

definition handleApplyFilter :: "FilterManager \<Rightarrow> IDateRange \<Rightarrow> host \<Rightarrow> event list" where
  "handleApplyFilter fm dateRange h =
     (if \<not> isValidDateRange (Some dateRange)
      then [DebugError ''Invalid date range provided for filter application'']
      else applyDateFilter fm dateRange h @ [DebugInfo ''Filter applied''])"

section \<open>Column discovery of the single-file visual\<close>

definition pickMetaDateCol :: "MetadataColumn list \<Rightarrow> MetadataColumn option" where
  "pickMetaDateCol metaCols =
     (case find (\<lambda>c. (role_date c \<or> role_category c) \<and> (type_dateTime c \<or> type_date c)) metaCols of
        Some c \<Rightarrow> Some c
      | None \<Rightarrow> find (\<lambda>c. type_dateTime c \<or> type_date c) metaCols)"

text \<open>
  \<open>updateDataColumnInfo\<close>, as far as the binding goes: the value it stores in
  \<open>dateColumn\<close> and hands to \<open>setDateColumn\<close>. The \<open>minDate\<close> and \<open>maxDate\<close> it adds,
  which feed the date inputs only, are left out. The argument is \<open>options.dataViews\<close>,
  empty when that is missing.
\<close>

definition updateDataColumnInfo :: "DataView list \<Rightarrow> IDateColumnInfo option" where
  "updateDataColumnInfo dataViews =
     (let cats = (case dataViews of [] \<Rightarrow> None | dv # _ \<Rightarrow> categories dv);
          metaCols = (case dataViews of
                        [] \<Rightarrow> []
                      | dv # _ \<Rightarrow> (case metadata_columns dv of None \<Rightarrow> [] | Some cs \<Rightarrow> cs))
      in case cats of
           Some (c0 # rest) \<Rightarrow>
             (let cat = (case find (\<lambda>c. (role_date (cat_source c) \<or> role_category (cat_source c))
                                          \<or> (type_dateTime (cat_source c) \<or> type_date (cat_source c)))
                                   (c0 # rest) of
                           Some c \<Rightarrow> c
                         | None \<Rightarrow> c0)
              in Some \<lparr>displayName = js_or (col_displayName (cat_source cat)) ''Date'',
                       queryName = col_queryName (cat_source cat)\<rparr>)
         | _ \<Rightarrow>
             (case pickMetaDateCol metaCols of
                Some metaDate \<Rightarrow>
                  Some \<lparr>displayName = js_or (col_displayName metaDate) ''Date'',
                         queryName = col_queryName metaDate\<rparr>
              | None \<Rightarrow> None))"

section \<open>Reading an outcome\<close>

text \<open>The messages shown to the user, in order.\<close>

definition messages :: "event list \<Rightarrow> event list" where
  "messages evs =
     filter (\<lambda>e. case e of ShowError _ \<Rightarrow> True | ShowSuccess _ \<Rightarrow> True | _ \<Rightarrow> False) evs"

text \<open>
  An event that reports an error: an error message to the user, \<open>console.error\<close>, or
  \<open>logError\<close> of the debug logger. A warning or an information line is none.
\<close>

definition is_error :: "event \<Rightarrow> bool" where
  "is_error e =
     (case e of ShowError _ \<Rightarrow> True | ConsoleError _ \<Rightarrow> True | DebugError _ \<Rightarrow> True
      | _ \<Rightarrow> False)"

text \<open>
  The specification's account of \<open>clearFilter\<close> of the DirectQuery revision, to be
  compared with \<open>clearFilter_dq\<close> above. First the calls it sets out to make, in order,
  given what the host has: the filter manager's \<open>clear\<close>, the removal on the general and
  on the advanced scope, the making of a selection manager and its \<open>clear\<close>.
\<close>

definition clear_plan :: "host \<Rightarrow> host_call list" where
  "clear_plan h =
     (if has_filterManager_clear h then [FilterManager_clear] else []) @
     (if has_applyJsonFilter h
      then [ApplyJsonFilter None ''general'' ''filter'' 1,
            ApplyJsonFilter None ''advanced'' ''filter'' 1]
      else []) @
     (if has_createSelectionManager h
      then CreateSelectionManager #
           (if has_selectionManager_clear h then [SelectionManager_clear] else [])
      else [])"

text \<open>
  Making a list of calls one after the other until one throws: the calls made, the
  throwing one last, and the message of the error, if any.
\<close>

fun run_plan :: "host \<Rightarrow> host_call list \<Rightarrow> host_call list \<times> string option" where
  "run_plan h [] = ([], None)"
| "run_plan h (c # cs) =
     (case throws h c of
        Some e \<Rightarrow> ([c], Some e)
      | None \<Rightarrow> (c # fst (run_plan h cs), snd (run_plan h cs)))"

section \<open>Example hosts and payloads\<close>

text \<open>A host with every capability, none of which throws.\<close>

definition full_host :: host where
  "full_host =
     \<lparr>has_createSelectionManager = True, has_filterManager_applyFilter = True,
      has_filterManager_clear = True, has_applyJsonFilter = True,
      has_selectionManager_clear = True, throws = (\<lambda>c. None)\<rparr>"

text \<open>
  A host whose only filter capability is \<open>applyJsonFilter\<close>, which clears the general
  scope and throws on the advanced scope.
\<close>

definition general_scope_host :: host where
  "general_scope_host =
     \<lparr>has_createSelectionManager = True, has_filterManager_applyFilter = False,
      has_filterManager_clear = False, has_applyJsonFilter = True,
      has_selectionManager_clear = True,
      throws = (\<lambda>c. if c = ApplyJsonFilter None ''advanced'' ''filter'' 1
                     then Some ''scope not supported'' else None)\<rparr>"

text \<open>A data view with the date column \<open>Sales.OrderDate\<close>, and one with a text column only.\<close>

definition sales_view :: DataView where
  "sales_view =
     \<lparr>metadata_columns =
        Some [\<lparr>col_displayName = ''OrderDate'', col_queryName = ''Sales.OrderDate'',
               role_date = True, role_category = False, type_dateTime = True,
               type_date = False,
               col_expr = Some \<lparr>source = Some \<lparr>entity = ''Sales''\<rparr>\<rparr>\<rparr>],
      categories = None\<rparr>"

definition text_view :: DataView where
  "text_view =
     \<lparr>metadata_columns =
        Some [\<lparr>col_displayName = ''Region'', col_queryName = ''Sales.Region'',
               role_date = False, role_category = False, type_dateTime = False,
               type_date = False,
               col_expr = Some \<lparr>source = Some \<lparr>entity = ''Sales''\<rparr>\<rparr>\<rparr>],
      categories = None\<rparr>"

section \<open>Calendar facts\<close>

text \<open>
  Known dates, and the link to ECMAScript's own definition of the calendar: the day
  number of 1 January of a year is \<open>DayFromYear\<close> of the standard.
\<close>

lemma calendar_examples:
  "civil_from_days 0 = (1970, 0, 1)"
  "civil_from_days (- 1) = (1969, 11, 31)"
  "civil_from_days 11016 = (2000, 1, 29)"
  "civil_from_days 11017 = (2000, 2, 1)"
  "civil_from_days (- 25509) = (1900, 1, 28)"
  "civil_from_days (- 25508) = (1900, 2, 1)"
  "civil_from_days 19782 = (2024, 1, 29)"
  "civil_from_days 20088 = (2024, 11, 31)"
  "days_from_civil 2024 11 31 = 20088"
  "MakeDay 2024 12 0 = 20088"
  by code_simp+

lemma days_from_civil_january:
  "days_from_civil y 0 1 =
     ((y - 1) div 400) * 146097 + (((y - 1) mod 400) * 365 + ((y - 1) mod 400) div 4
       - ((y - 1) mod 400) div 100 + 306) - 719468"
  unfolding days_from_civil_def Let_def by simp

lemma div_shift:
  fixes a k :: int
  shows "(a + k * 4) div 4 = k + a div 4" "(a + k * 100) div 100 = k + a div 100"
    "(a + k * 400) div 400 = k + a div 400"
  by simp_all

lemma year_offsets:
  fixes e r :: int
  assumes "y = 400 * e + r + 1"
  shows "y - 1969 = r + (100 * e - 492) * 4" "y - 1901 = r + (4 * e - 19) * 100"
    "y - 1601 = r + (e - 4) * 400"
  unfolding assms by simp_all

lemma DayFromYear_sum:
  fixes era yoe q4 q100 :: int
  assumes "y = 400 * era + yoe + 1"
  shows "era * 146097 + (yoe * 365 + q4 - q100 + 306) - 719468 =
    365 * (y - 1970) + (100 * era - 492 + q4) - (4 * era - 19 + q100) + (era - 4 + 0)"
  unfolding assms by simp

lemma DayFromYear:
  "days_from_civil y 0 1 =
     365 * (y - 1970) + (y - 1969) div 4 - (y - 1901) div 100 + (y - 1601) div 400"
proof -
  have y: "y = 400 * ((y - 1) div 400) + (y - 1) mod 400 + 1" by simp
  have a: "y - 1969 = (y - 1) mod 400 + (100 * ((y - 1) div 400) - 492) * 4"
    and b: "y - 1901 = (y - 1) mod 400 + (4 * ((y - 1) div 400) - 19) * 100"
    and c: "y - 1601 = (y - 1) mod 400 + ((y - 1) div 400 - 4) * 400"
    by (rule year_offsets [OF y])+
  have z: "((y - 1) mod 400) div 400 = 0" by simp
  have a': "(y - 1969) div 4 = 100 * ((y - 1) div 400) - 492 + ((y - 1) mod 400) div 4"
    by (subst a) (rule div_shift)
  have b': "(y - 1901) div 100 = 4 * ((y - 1) div 400) - 19 + ((y - 1) mod 400) div 100"
    by (subst b) (rule div_shift)
  have c': "(y - 1601) div 400 = (y - 1) div 400 - 4 + 0"
    by (subst c) (simp only: div_shift z)
  show ?thesis
    unfolding days_from_civil_january a' b' c' by (rule DayFromYear_sum [OF y])
qed

text \<open>
  The shape of \<open>civil_from_days\<close>: an era, a year of the era and a day of that year,
  from which the day number is recovered.
\<close>

lemma civil_from_days_structure:
  "\<exists>era yoe doy doe.
     0 \<le> yoe \<and> yoe \<le> 399 \<and> 0 \<le> doy \<and> doy \<le> 365 \<and> 0 \<le> doe \<and> doe \<le> 146096 \<and>
     doe = yoe * 365 + yoe div 4 - yoe div 100 + doy \<and>
     n = era * 146097 + doe - 719468 \<and>
     civil_from_days n =
       (yoe + era * 400 + (if (5 * doy + 2) div 153 < 10 then 0 else 1),
        (if (5 * doy + 2) div 153 < 10 then (5 * doy + 2) div 153 + 2
         else (5 * doy + 2) div 153 - 10),
        doy - (153 * ((5 * doy + 2) div 153) + 2) div 5 + 1)"
proof -
  define z where "z = n + 719468"
  define era where "era = z div 146097"
  define doe where "doe = z mod 146097"
  define n100 where "n100 = min 3 (doe div 36524)"
  define r1 where "r1 = doe - n100 * 36524"
  define n4 where "n4 = r1 div 1461"
  define r2 where "r2 = r1 mod 1461"
  define n1 where "n1 = min 3 (r2 div 365)"
  define doy where "doy = r2 - n1 * 365"
  define yoe where "yoe = n100 * 100 + n4 * 4 + n1"
  have doe: "0 \<le> doe" "doe \<le> 146096" unfolding doe_def by simp_all
  have n100: "0 \<le> n100" "n100 \<le> 3" using doe unfolding n100_def by simp_all
  have r1: "0 \<le> r1" "r1 \<le> 36524" using doe unfolding r1_def n100_def by linarith+
  have n4: "0 \<le> n4" "n4 \<le> 24" using r1 unfolding n4_def by linarith+
  have r2: "0 \<le> r2" "r2 \<le> 1460" unfolding r2_def by simp_all
  have r1_eq: "r1 = n4 * 1461 + r2" unfolding n4_def r2_def by simp
  have n1: "0 \<le> n1" "n1 \<le> 3" using r2 unfolding n1_def by simp_all
  have doy: "0 \<le> doy" "doy \<le> 365" using r2 unfolding doy_def n1_def by linarith+
  have yoe: "0 \<le> yoe" "yoe \<le> 399" using n100 n4 n1 unfolding yoe_def by linarith+
  have yoe4: "yoe div 4 = n100 * 25 + n4" using n1 unfolding yoe_def by linarith
  have yoe100: "yoe div 100 = n100" using n1 n4 unfolding yoe_def by linarith
  have doe_eq: "doe = yoe * 365 + yoe div 4 - yoe div 100 + doy"
  proof -
    have "doe = n100 * 36524 + n4 * 1461 + r2"
      using r1_eq unfolding r1_def by linarith
    moreover have "yoe * 365 = n100 * 36500 + n4 * 1460 + n1 * 365"
      unfolding yoe_def by (simp add: distrib_right)
    ultimately show ?thesis unfolding yoe4 yoe100 doy_def by linarith
  qed
  have n_eq: "n = era * 146097 + doe - 719468"
  proof -
    have "era * 146097 + doe = z" unfolding era_def doe_def by simp
    then show ?thesis unfolding z_def by linarith
  qed
  have cfd: "civil_from_days n =
       (yoe + era * 400 + (if (5 * doy + 2) div 153 < 10 then 0 else 1),
        (if (5 * doy + 2) div 153 < 10 then (5 * doy + 2) div 153 + 2
         else (5 * doy + 2) div 153 - 10),
        doy - (153 * ((5 * doy + 2) div 153) + 2) div 5 + 1)"
    unfolding civil_from_days_def Let_def
    unfolding yoe_def doy_def n1_def r2_def n4_def r1_def n100_def doe_def era_def z_def
    by (rule refl)
  show ?thesis
    apply (rule exI[where x = era], rule exI[where x = yoe])
    apply (rule exI[where x = doy], rule exI[where x = doe])
    apply (intro conjI)
    by (fact yoe doy doe doe_eq n_eq cfd)+
qed

lemma month_index:
  fixes doy :: int
  assumes "0 \<le> doy" "doy \<le> 365"
  shows "0 \<le> (5 * doy + 2) div 153" "(5 * doy + 2) div 153 \<le> 11"
  using assms by linarith+

lemma day_of_month_range:
  fixes doy :: int
  assumes "0 \<le> doy" "doy \<le> 365"
  shows "1 \<le> doy - (153 * ((5 * doy + 2) div 153) + 2) div 5 + 1"
    and "doy - (153 * ((5 * doy + 2) div 153) + 2) div 5 + 1 \<le> 31"
proof -
  define k where "k = (5 * doy + 2) div 153"
  have k: "0 \<le> k" "k \<le> 11" using assms unfolding k_def by linarith+
  have lo: "153 * k \<le> 5 * doy + 2" and hi: "5 * doy + 2 < 153 * k + 153"
    unfolding k_def by linarith+
  have "k = 0 \<or> k = 1 \<or> k = 2 \<or> k = 3 \<or> k = 4 \<or> k = 5 \<or> k = 6 \<or> k = 7 \<or> k = 8
      \<or> k = 9 \<or> k = 10 \<or> k = 11"
    using k by presburger
  then have "1 \<le> doy - (153 * k + 2) div 5 + 1 \<and> doy - (153 * k + 2) div 5 + 1 \<le> 31"
    using lo hi by (elim disjE) simp_all
  then show "1 \<le> doy - (153 * ((5 * doy + 2) div 153) + 2) div 5 + 1"
    and "doy - (153 * ((5 * doy + 2) div 153) + 2) div 5 + 1 \<le> 31"
    unfolding k_def by simp_all
qed


lemma days_from_civil_civil_from_days:
  "days_from_civil (fst (civil_from_days n)) (fst (snd (civil_from_days n)))
     (snd (snd (civil_from_days n))) = n"
proof -
  obtain era yoe doy doe where yoe: "0 \<le> yoe" "yoe \<le> 399"
    and doy: "0 \<le> doy" "doy \<le> 365"
    and doe_eq: "doe = yoe * 365 + yoe div 4 - yoe div 100 + doy"
    and n_eq: "n = era * 146097 + doe - 719468"
    and cfd: "civil_from_days n =
       (yoe + era * 400 + (if (5 * doy + 2) div 153 < 10 then 0 else 1),
        (if (5 * doy + 2) div 153 < 10 then (5 * doy + 2) div 153 + 2
         else (5 * doy + 2) div 153 - 10),
        doy - (153 * ((5 * doy + 2) div 153) + 2) div 5 + 1)"
    using civil_from_days_structure [of n] by blast
  define mp where "mp = (5 * doy + 2) div 153"
  define d where "d = doy - (153 * mp + 2) div 5 + 1"
  have mp: "0 \<le> mp" "mp \<le> 11" using month_index [OF doy] unfolding mp_def by simp_all
  have a: "(yoe + era * 400) div 400 = era" using yoe by linarith
  have b: "(yoe + era * 400) mod 400 = yoe" using yoe by (simp add: mod_pos_pos_trivial)
  have d_eq: "(153 * mp + 2) div 5 + d - 1 = doy" unfolding d_def by simp
  have fin: "era * 146097 + (yoe * 365 + yoe div 4 - yoe div 100 + doy) - 719468 = n"
    using n_eq doe_eq by simp
  show ?thesis
  proof (cases "mp < 10")
    case True
    have c: "(mp + 2 + 10) mod 12 = mp" using mp by presburger
    have m: "\<not> mp + 2 \<le> 1" using mp by linarith
    have "days_from_civil (yoe + era * 400) (mp + 2) d = n"
      unfolding days_from_civil_def Let_def using m
      by (simp only: if_False diff_0_right a b c d_eq fin)
    then show ?thesis using True by (simp add: cfd mp_def [symmetric] d_def [symmetric])
  next
    case False
    have c: "(mp - 10 + 10) mod 12 = mp" using mp by presburger
    have m: "mp - 10 \<le> 1" using mp by linarith
    have "days_from_civil (yoe + era * 400 + 1) (mp - 10) d = n"
      unfolding days_from_civil_def Let_def using m
      by (simp only: if_True add_diff_cancel_right' a b c d_eq fin)
    then show ?thesis using False by (simp add: cfd mp_def [symmetric] d_def [symmetric])
  qed
qed

lemma civil_from_days_ranges:
  "0 \<le> fst (snd (civil_from_days n))" "fst (snd (civil_from_days n)) \<le> 11"
  "1 \<le> snd (snd (civil_from_days n))" "snd (snd (civil_from_days n)) \<le> 31"
proof -
  obtain era yoe doy doe where doy: "0 \<le> (doy::int)" "doy \<le> 365"
    and cfd: "civil_from_days n =
       (yoe + era * 400 + (if (5 * doy + 2) div 153 < 10 then 0 else 1),
        (if (5 * doy + 2) div 153 < 10 then (5 * doy + 2) div 153 + 2
         else (5 * doy + 2) div 153 - 10),
        doy - (153 * ((5 * doy + 2) div 153) + 2) div 5 + 1)"
    using civil_from_days_structure [of n] by blast
  have mp: "0 \<le> (5 * doy + 2) div 153" "(5 * doy + 2) div 153 \<le> 11"
    using month_index [OF doy] by simp_all
  show "0 \<le> fst (snd (civil_from_days n))" "fst (snd (civil_from_days n)) \<le> 11"
    using mp by (simp_all add: cfd)
  show "1 \<le> snd (snd (civil_from_days n))" "snd (snd (civil_from_days n)) \<le> 31"
    using day_of_month_range [OF doy] by (simp_all add: cfd)
qed

lemma year_bounds_days:
  assumes "1000 \<le> fst (civil_from_days n)" "fst (civil_from_days n) \<le> 9999"
  shows "- 427274 \<le> n" "n \<le> 2932956"
proof -
  obtain era yoe doy doe where yoe: "0 \<le> (yoe::int)" "yoe \<le> 399"
    and doe: "0 \<le> (doe::int)" "doe \<le> 146096"
    and n_eq: "n = era * 146097 + doe - 719468"
    and cfd: "civil_from_days n =
       (yoe + era * 400 + (if (5 * doy + 2) div 153 < 10 then 0 else 1),
        (if (5 * doy + 2) div 153 < 10 then (5 * doy + 2) div 153 + 2
         else (5 * doy + 2) div 153 - 10),
        doy - (153 * ((5 * doy + 2) div 153) + 2) div 5 + 1)"
    using civil_from_days_structure [of n] by blast
  have y: "1000 \<le> yoe + era * 400 + 1" "yoe + era * 400 \<le> 9999"
    using assms by (simp_all add: cfd split: if_splits)
  have era: "2 \<le> era" "era \<le> 24" using y yoe by linarith+
  show "- 427274 \<le> n" "n \<le> 2932956" using era doe unfolding n_eq by linarith+
qed

lemma msPerDay_pos: "0 < msPerDay"
  by (simp add: msPerDay_def)

lemma Day_bounds: "Day x * msPerDay \<le> x" "x < Day x * msPerDay + msPerDay"
  unfolding Day_def msPerDay_def by linarith+

lemma Day_unique:
  assumes "q * msPerDay \<le> x" "x < q * msPerDay + msPerDay"
  shows "Day x = q"
  using assms unfolding Day_def msPerDay_def by linarith

lemma Day_TimeWithinDay: "Day x * msPerDay + TimeWithinDay x = x"
  unfolding Day_def TimeWithinDay_def by simp

lemma MakeDay_fields:
  "MakeDay (YearFromTime l) (MonthFromTime l) (DateFromTime l + k) = Day l + k"
proof -
  have m: "0 \<le> MonthFromTime l" "MonthFromTime l \<le> 11"
    unfolding MonthFromTime_def by (rule civil_from_days_ranges)+
  have div0: "MonthFromTime l div 12 = 0" using m by linarith
  have mod0: "MonthFromTime l mod 12 = MonthFromTime l"
    using m by (simp add: mod_pos_pos_trivial)
  have lin: "\<And>y mo d. days_from_civil y mo 1 + d - 1 = days_from_civil y mo d"
    unfolding days_from_civil_def Let_def by simp
  have rt: "days_from_civil (YearFromTime l) (MonthFromTime l) (DateFromTime l) = Day l"
    unfolding YearFromTime_def MonthFromTime_def DateFromTime_def
    by (rule days_from_civil_civil_from_days)
  have "MakeDay (YearFromTime l) (MonthFromTime l) (DateFromTime l + k)
      = days_from_civil (YearFromTime l) (MonthFromTime l) 1 + (DateFromTime l + k) - 1"
    unfolding MakeDay_def div0 mod0 by simp
  also have "\<dots> = (days_from_civil (YearFromTime l) (MonthFromTime l) 1 + DateFromTime l - 1) + k"
    by linarith
  also have "\<dots> = Day l + k"
    by (simp only: lin rt)
  finally show ?thesis .
qed


lemma TimeClip_in_range: "abs x \<le> maxTimeValue \<Longrightarrow> TimeClip x = TimeValue x"
  by (simp add: TimeClip_def)

lemma dayStart_bounds: "dayStart tz t \<le> t" "t < dayStart tz t + msPerDay"
  using Day_bounds [of "t + tz"] unfolding dayStart_def by linarith+

lemma dayEnd_bounds: "t \<le> dayEnd tz t" "dayEnd tz t < t + msPerDay"
  using dayStart_bounds [where tz = tz and t = t] unfolding dayEnd_def by linarith+

lemma Day_dayStart: "Day (LocalTime tz (dayStart tz t)) = Day (LocalTime tz t)"
  unfolding LocalTime_def dayStart_def
  by (rule Day_unique) (use msPerDay_pos in simp_all)

lemma Day_dayEnd: "Day (LocalTime tz (dayEnd tz t)) = Day (LocalTime tz t)"
  unfolding LocalTime_def dayEnd_def dayStart_def
  by (rule Day_unique) (use msPerDay_pos in simp_all)

lemma TimeWithinDay_dayStart: "TimeWithinDay (LocalTime tz (dayStart tz t)) = MakeTime 0 0 0 0"
  unfolding LocalTime_def dayStart_def TimeWithinDay_def MakeTime_def by simp

lemma TimeWithinDay_dayEnd: "TimeWithinDay (LocalTime tz (dayEnd tz t)) = MakeTime 23 59 59 999"
  unfolding LocalTime_def dayEnd_def dayStart_def TimeWithinDay_def MakeTime_def msPerDay_def
  by simp

lemma setHours_start_gen:
  assumes "abs (dayStart tz t) \<le> maxTimeValue"
  shows "setHours tz (TimeValue t) 0 0 0 0 = TimeValue (dayStart tz t)"
proof -
  have "TimeClip (dayStart tz t) = TimeValue (dayStart tz t)"
    using assms by (rule TimeClip_in_range)
  then show ?thesis
    by (simp add: setHours_def UTC_def MakeDate_def MakeTime_def LocalTime_def dayStart_def)
qed

lemma setHours_start:
  assumes "within_days 1 t"
  shows "setHours tz (TimeValue t) 0 0 0 0 = TimeValue (dayStart tz t)"
proof -
  have "abs (dayStart tz t) \<le> maxTimeValue"
    using assms dayStart_bounds [where tz = tz and t = t] msPerDay_pos
    unfolding within_days_def by linarith
  then show ?thesis by (rule setHours_start_gen)
qed

lemma setHours_end:
  assumes "within_days 1 t"
  shows "setHours tz (TimeValue t) 23 59 59 999 = TimeValue (dayEnd tz t)"
proof -
  have "abs (dayEnd tz t) \<le> maxTimeValue"
    using assms dayEnd_bounds [where tz = tz and t = t] msPerDay_pos unfolding within_days_def by linarith
  then have "TimeClip (dayEnd tz t) = TimeValue (dayEnd tz t)"
    by (rule TimeClip_in_range)
  moreover have "UTC tz (MakeDate (Day (LocalTime tz t)) (MakeTime 23 59 59 999)) = dayEnd tz t"
    by (simp add: UTC_def MakeDate_def MakeTime_def LocalTime_def dayStart_def dayEnd_def
        msPerDay_def)
  ultimately show ?thesis by (simp add: setHours_def)
qed

lemma setDate_minus:
  "setDate tz (TimeValue t) (num_sub (getDate tz (TimeValue t)) (Some n))
     = TimeClip (t - n * msPerDay)"
proof -
  define l where "l = LocalTime tz t"
  have "MakeDay (YearFromTime l) (MonthFromTime l) (DateFromTime l - n) = Day l - n"
    using MakeDay_fields [of l "- n"] by simp
  moreover have "(Day l - n) * msPerDay + TimeWithinDay l = l - n * msPerDay"
    using Day_TimeWithinDay [of l] by (simp add: left_diff_distrib)
  ultimately have "UTC tz (MakeDate (MakeDay (YearFromTime l) (MonthFromTime l)
      (DateFromTime l - n)) (TimeWithinDay l)) = t - n * msPerDay"
    by (simp add: UTC_def MakeDate_def l_def LocalTime_def)
  then show ?thesis
    by (simp add: setDate_def num_sub_def getDate_def Let_def l_def [symmetric])
qed

lemma within_days_mono: "within_days k t \<Longrightarrow> j \<le> k \<Longrightarrow> within_days j t"
  unfolding within_days_def msPerDay_def by linarith

lemma dayStart_shift: "dayStart tz (t - n * msPerDay) = dayStart tz t - n * msPerDay"
proof -
  have "Day (t - n * msPerDay + tz) = Day (t + tz) - n"
    by (rule Day_unique) (use Day_bounds [of "t + tz"] in \<open>simp_all add: left_diff_distrib\<close>)
  then show ?thesis by (simp add: dayStart_def left_diff_distrib)
qed

lemma subtractDays_dayEnd:
  assumes "0 \<le> n" "within_days (n + 1) A"
  shows "setHours tz (subtractDays tz (TimeValue (dayEnd tz A)) n) 0 0 0 0
           = TimeValue (dayStart tz (A - n * msPerDay))"
proof -
  have w: "abs A + n * msPerDay + msPerDay \<le> maxTimeValue"
    using assms(2) unfolding within_days_def by (simp add: distrib_right)
  have nn: "0 \<le> n * msPerDay" using assms(1) msPerDay_pos by simp
  have r: "abs (dayEnd tz A - n * msPerDay) \<le> maxTimeValue"
    using w nn dayEnd_bounds [where tz = tz and t = A] msPerDay_pos by linarith
  have sub: "subtractDays tz (TimeValue (dayEnd tz A)) n = TimeValue (dayEnd tz A - n * msPerDay)"
    unfolding subtractDays_def setDate_minus by (rule TimeClip_in_range [OF r])
  have "dayStart tz (dayEnd tz A - n * msPerDay) = dayStart tz (A - n * msPerDay)"
  proof -
    have "Day (dayEnd tz A + tz) = Day (A + tz)"
      using Day_dayEnd [of tz A] by (simp add: LocalTime_def)
    then have "dayStart tz (dayEnd tz A) = dayStart tz A" by (simp add: dayStart_def)
    then show ?thesis by (simp add: dayStart_shift)
  qed
  moreover have "abs (dayStart tz (A - n * msPerDay)) \<le> maxTimeValue"
    using w nn dayStart_bounds [where tz = tz and t = "A - n * msPerDay"] msPerDay_pos
    by linarith
  ultimately show ?thesis
    using setHours_start_gen [of tz "dayEnd tz A - n * msPerDay"] by (simp add: sub)
qed

lemma calculateDateRange_preset:
  assumes "rt \<noteq> Custom" "within_days (preset_days rt + 1) A"
  shows "calculateDateRange tz A rt =
           \<lparr>startDate = TimeValue (dayStart tz (A - preset_days rt * msPerDay)),
            endDate = TimeValue (dayEnd tz A), range_type = rt\<rparr>"
proof -
  have p: "0 \<le> preset_days rt" by (cases rt) (simp_all add: preset_days_def)
  have w1: "within_days 1 A" using within_days_mono [OF assms(2)] p by simp
  have e: "setHours tz (TimeValue A) 23 59 59 999 = TimeValue (dayEnd tz A)"
    by (rule setHours_end [OF w1])
  have s: "setHours tz (subtractDays tz (TimeValue (dayEnd tz A)) (preset_days rt)) 0 0 0 0
           = TimeValue (dayStart tz (A - preset_days rt * msPerDay))"
    by (rule subtractDays_dayEnd [OF p assms(2)])
  show ?thesis
    using assms(1) s by (cases rt) (simp_all add: calculateDateRange_def e preset_days_def)
qed

lemma getDateRange_preset:
  assumes "r \<noteq> CUSTOM" "within_days (range_value r) A"
  shows "getDateRange tz now r (Some (TimeValue A)) =
           \<lparr>startDate = TimeValue (A - range_value r * msPerDay), endDate = TimeValue A\<rparr>"
proof -
  have p: "0 \<le> range_value r * msPerDay"
    by (cases r) (simp_all add: range_value_def msPerDay_def)
  have "abs (A - range_value r * msPerDay) \<le> maxTimeValue"
    using assms(2) p unfolding within_days_def by linarith
  then have "TimeClip (A - range_value r * msPerDay) = TimeValue (A - range_value r * msPerDay)"
    by (rule TimeClip_in_range)
  then show ?thesis using assms(1) by (simp add: getDateRange_def setDate_minus)
qed

section \<open>Preset ranges and custom ranges\<close>

text \<open>
  The time values used in the examples below, read in a zone with offset 0.
\<close>

lemma iso_examples:
  "toISOString (TimeValue 1734998400000) = Some ''2024-12-24T00:00:00.000Z''"
  "toISOString (TimeValue 1735689599999) = Some ''2024-12-31T23:59:59.999Z''"
  "toISOString (TimeValue 1735659000000) = Some ''2024-12-31T15:30:00.000Z''"
  "toISOString (TimeValue 1735054200000) = Some ''2024-12-24T15:30:00.000Z''"
  "toISOString (TimeValue 1735603200000) = Some ''2024-12-31T00:00:00.000Z''"
  "toISOString (TimeValue 1741564800000) = Some ''2025-03-10T00:00:00.000Z''"
  "toISOString (TimeValue 1740787200000) = Some ''2025-03-01T00:00:00.000Z''"
  "toISOString (TimeValue 1740873599999) = Some ''2025-03-01T23:59:59.999Z''"
  "toISOString (TimeValue 1740852000000) = Some ''2025-03-01T18:00:00.000Z''"
  "toISOString (TimeValue 1740819600000) = Some ''2025-03-01T09:00:00.000Z''"
  by code_simp+

lemma day_order:
  "dayStart tz a \<le> dayEnd tz b \<longleftrightarrow> Day (LocalTime tz a) \<le> Day (LocalTime tz b)"
  unfolding dayEnd_def dayStart_def LocalTime_def msPerDay_def by linarith

lemma Day_mono: "a \<le> b \<Longrightarrow> Day a \<le> Day b"
  unfolding Day_def msPerDay_def by linarith

text \<open>
  Claim C1, amended. For a preset of \<open>N\<close> days (7, 30 or 90) and an anchor \<open>A\<close> far
  enough inside the range of Date: \<open>calculateDateRange\<close>, anchored at the current moment
  \<open>A\<close>, returns the last millisecond of \<open>A\<close>'s local day as end and local midnight of the
  day \<open>N\<close> days earlier as start. \<open>DateUtils.getDateRange\<close> returns the anchor itself as
  end and the anchor moved back \<open>N\<close> days as start, both at the anchor's time of day:
  it does not normalise to day boundaries. The last four conjuncts say what
  \<open>dayStart\<close> and \<open>dayEnd\<close> are: same local day, time of day 00:00:00.000 and
  23:59:59.999.
\<close>

theorem preset_range_computation:
  "(rt \<noteq> Custom \<and> within_days (preset_days rt + 1) A \<longrightarrow>
      calculateDateRange tz A rt =
        \<lparr>startDate = TimeValue (dayStart tz (A - preset_days rt * msPerDay)),
         endDate = TimeValue (dayEnd tz A), range_type = rt\<rparr>)
   \<and> (r \<noteq> CUSTOM \<and> within_days (range_value r) A \<longrightarrow>
      getDateRange tz now r (Some (TimeValue A)) =
        \<lparr>startDate = TimeValue (A - range_value r * msPerDay), endDate = TimeValue A\<rparr>)
   \<and> Day (LocalTime tz (dayEnd tz A)) = Day (LocalTime tz A)
   \<and> TimeWithinDay (LocalTime tz (dayEnd tz A)) = MakeTime 23 59 59 999
   \<and> Day (LocalTime tz (dayStart tz A)) = Day (LocalTime tz A)
   \<and> TimeWithinDay (LocalTime tz (dayStart tz A)) = MakeTime 0 0 0 0"
  using calculateDateRange_preset [of rt A tz] getDateRange_preset [of r A tz now]
  by (simp only: Day_dayEnd TimeWithinDay_dayEnd Day_dayStart TimeWithinDay_dayStart) blast

theorem preset_range_computation_witness:
  "Last7Days \<noteq> Custom \<and> within_days (preset_days Last7Days + 1) 1735659000000
   \<and> LATEST_7_DAYS \<noteq> CUSTOM \<and> within_days (range_value LATEST_7_DAYS) 1735659000000
   \<and> calculateDateRange 0 1735659000000 Last7Days =
        \<lparr>startDate = TimeValue 1734998400000, endDate = TimeValue 1735689599999,
         range_type = Last7Days\<rparr>
   \<and> getDateRange 0 0 LATEST_7_DAYS (Some (TimeValue 1735659000000)) =
        \<lparr>startDate = TimeValue 1735054200000, endDate = TimeValue 1735659000000\<rparr>"
  using preset_range_computation [of Last7Days 1735659000000 0 LATEST_7_DAYS 0]
  by (simp add: within_days_def preset_days_def range_value_def msPerDay_def maxTimeValue_def
      dayStart_def dayEnd_def Day_def)

text \<open>
  The claim as stated fails for \<open>getDateRange\<close>: anchored at local midnight of 2024-12-31
  (what \<open>parseDate\<close> hands it), the end date is that midnight, not 23:59:59.999.
\<close>

theorem getDateRange_not_normalised:
  "endDate (getDateRange 0 0 LATEST_7_DAYS (Some (TimeValue 1735603200000)))
     = TimeValue 1735603200000
   \<and> dayEnd 0 1735603200000 = 1735689599999
   \<and> endDate (getDateRange 0 0 LATEST_7_DAYS (Some (TimeValue 1735603200000)))
     \<noteq> TimeValue (dayEnd 0 1735603200000)"
  by (simp add: getDateRange_def Let_def dayEnd_def dayStart_def Day_def msPerDay_def)


text \<open>
  Claim C2, amended. In a zone with a constant zone offset \<open>tz\<close>, \<open>createCustomRange\<close>
  moves the start to local midnight of its day and the end to the last millisecond of
  its day, never swapping the two; the range then
  passes \<open>isValidDateRange\<close> exactly when the local day of the start is not after the
  local day of the end. So \<open>a \<le> b\<close> always passes, and a reversed pair fails when the two
  dates lie on different days.
\<close>

theorem custom_range_validation:
  assumes "within_days 1 a" "within_days 1 b"
  shows "createCustomRange tz (TimeValue a) (TimeValue b) =
           \<lparr>startDate = TimeValue (dayStart tz a), endDate = TimeValue (dayEnd tz b),
            range_type = Custom\<rparr>
         \<and> (isValidDateRange (Some (createCustomRange tz (TimeValue a) (TimeValue b)))
              \<longleftrightarrow> Day (LocalTime tz a) \<le> Day (LocalTime tz b))
         \<and> (a \<le> b \<longrightarrow> isValidDateRange (Some (createCustomRange tz (TimeValue a) (TimeValue b))))"
proof -
  have c: "createCustomRange tz (TimeValue a) (TimeValue b) =
           \<lparr>startDate = TimeValue (dayStart tz a), endDate = TimeValue (dayEnd tz b),
            range_type = Custom\<rparr>"
    by (simp add: createCustomRange_def setHours_start [OF assms(1)] setHours_end [OF assms(2)])
  have v: "isValidDateRange (Some (createCustomRange tz (TimeValue a) (TimeValue b)))
              \<longleftrightarrow> Day (LocalTime tz a) \<le> Day (LocalTime tz b)"
    by (simp add: c isValidDateRange_def date_le_def day_order)
  have "a \<le> b \<Longrightarrow> Day (LocalTime tz a) \<le> Day (LocalTime tz b)"
    unfolding LocalTime_def by (rule Day_mono) simp
  then show ?thesis using c v by blast
qed

theorem custom_range_validation_witness:
  "within_days 1 1741564800000 \<and> within_days 1 1740787200000
   \<and> createCustomRange 0 (TimeValue 1741564800000) (TimeValue 1740787200000) =
        \<lparr>startDate = TimeValue 1741564800000, endDate = TimeValue 1740873599999,
         range_type = Custom\<rparr>
   \<and> \<not> isValidDateRange (Some (createCustomRange 0 (TimeValue 1741564800000)
            (TimeValue 1740787200000)))"
proof -
  have w: "within_days 1 1741564800000" "within_days 1 1740787200000"
    by (simp_all add: within_days_def msPerDay_def maxTimeValue_def)
  have d: "dayStart 0 1741564800000 = 1741564800000" "dayEnd 0 1740787200000 = 1740873599999"
    "\<not> Day (LocalTime 0 1741564800000) \<le> Day (LocalTime 0 1740787200000)"
    by (simp_all add: dayStart_def dayEnd_def Day_def LocalTime_def msPerDay_def)
  show ?thesis
    using custom_range_validation [OF w, of 0] w d by auto
qed

text \<open>
  The claim as stated fails for a reversed pair within one day: start 2025-03-01 18:00,
  end 2025-03-01 09:00 is accepted.
\<close>

theorem same_day_reversed_pair_is_valid:
  "isValidDateRange (Some (createCustomRange 0 (TimeValue 1740852000000)
      (TimeValue 1740819600000)))
   \<and> \<not> date_le (TimeValue 1740852000000) (TimeValue 1740819600000)"
  by (simp add: isValidDateRange_def createCustomRange_def setHours_def date_le_def TimeClip_def
      UTC_def MakeDate_def MakeTime_def LocalTime_def Day_def msPerDay_def maxTimeValue_def)

section \<open>Running a block of statements\<close>

lemma bind_ret: "bind (ret v) f = f v"
  by (simp add: bind_def ret_def Let_def)

lemma bind_emit: "bind (emit e) f = (e # fst (f ()), snd (f ()))"
  by (simp add: bind_def emit_def Let_def)

lemma bind_raise: "bind (raise m) f = ([], Inl m)"
  by (simp add: bind_def raise_def)

lemma bind_invoke_returns:
  "throws h c = None \<Longrightarrow> bind (invoke h c) f = (HostCall c # fst (f ()), snd (f ()))"
  by (simp add: bind_def invoke_def Let_def)

lemma bind_invoke_throws:
  "throws h c = Some m \<Longrightarrow> bind (invoke h c) f = ([HostCall c], Inl m)"
  by (simp add: bind_def invoke_def)

lemma bind_pair:
  "bind (evs, Inr v) f = (evs @ fst (f v), snd (f v))"
  "bind (evs, Inl m) f = (evs, Inl m)"
  by (simp_all add: bind_def Let_def)

lemma try_catch_simps:
  "try_catch (evs, Inr v) handler = evs"
  "try_catch (evs, Inl m) handler = evs @ handler m"
  by (simp_all add: try_catch_def)

lemma fst_snd_emit: "fst (emit e) = [e]" "snd (emit e) = Inr ()"
  by (simp_all add: emit_def)

lemma fst_snd_ret: "fst (ret v) = []" "snd (ret v) = Inr v"
  by (simp_all add: ret_def)

lemma fst_snd_invoke:
  "fst (invoke h c) = [HostCall c]"
  "throws h c = None \<Longrightarrow> snd (invoke h c) = Inr ()"
  "throws h c = Some m \<Longrightarrow> snd (invoke h c) = Inl m"
  by (simp_all add: invoke_def)

section \<open>The filter descriptor\<close>

lemma formatDateForDirectQuery_eq:
  "formatDateForDirectQuery tz d True = formatDate tz (Some d) @ ''T00:00:00.000''"
  "formatDateForDirectQuery tz d False = formatDate tz (Some d) @ ''T23:59:59.999''"
  by (simp_all add: formatDateForDirectQuery_def formatDate_def Let_def)

lemma toISOString_ends_Z: "toISOString (TimeValue t) = Some s \<Longrightarrow> last s = CHR ''Z''"
  by (auto simp add: toISOString_def)

text \<open>
  Claim C3, amended. The filter service of either revision writes both values as the
  local calendar date (year, month and day of the local getters, the text \<open>formatDate\<close>
  gives) followed by \<open>T00:00:00.000\<close> for the start and \<open>T23:59:59.999\<close> for the end,
  with no trailing \<open>Z\<close>. The filter manager writes them with \<open>toISOString\<close>, which is
  the UTC reading of the Date's own time value and ends in \<open>Z\<close>.
\<close>

theorem filter_value_serialisation:
  "map cond_value (case createAdvancedFilter tz (Some col) r of Some f \<Rightarrow> conditions f | None \<Rightarrow> [])
     = [formatDate tz (Some (startDate r)) @ ''T00:00:00.000'',
        formatDate tz (Some (endDate r)) @ ''T23:59:59.999'']
   \<and> map cond_value (case createAdvancedFilter_dq tz (Some col) r of Some f \<Rightarrow> conditions f | None \<Rightarrow> [])
     = [formatDate tz (Some (startDate r)) @ ''T00:00:00.000'',
        formatDate tz (Some (endDate r)) @ ''T23:59:59.999'']
   \<and> last (formatDateForDirectQuery tz d True) \<noteq> CHR ''Z''
   \<and> last (formatDateForDirectQuery tz d False) \<noteq> CHR ''Z''
   \<and> (\<exists>s. toISOString (TimeValue t) = Some (s @ ''Z''))"
  by (simp add: createAdvancedFilter_def createAdvancedFilter_dq_def models_AdvancedFilter_def
      formatDateForDirectQuery_eq Let_def toISOString_def)

text \<open>
  The claim as stated fails for the filter manager. In a zone five hours behind UTC, the
  last-7-days range computed at 2024-12-31 10:30 local time goes to the host as
  05:00:00.000Z on the 24th and 04:59:59.999Z on the 1st of January.
\<close>

theorem filter_manager_serialises_utc:
  "host_calls
     (applyDateFilter (checkDateColumnAvailability FilterManager_init [sales_view])
        (calculateDateRange (- 18000000) 1735659000000 Last7Days) full_host) =
     [ApplyJsonFilter
        (Some \<lparr>schema = ''https://powerbi.com/product/schema#advanced'',
               target = \<lparr>table = ''Sales'', column = ''OrderDate''\<rparr>,
               logicalOperator = ''And'',
               conditions =
                 [\<lparr>operator = ''GreaterThanOrEqual'',
                   cond_value = ''2024-12-24T05:00:00.000Z''\<rparr>,
                  \<lparr>operator = ''LessThanOrEqual'',
                   cond_value = ''2025-01-01T04:59:59.999Z''\<rparr>],
               filterType = None\<rparr>)
        ''general'' ''filter'' 0]"
  by code_simp

text \<open>
  Claim C4. With a column bound, the filter service builds a descriptor with the target
  parsed from the column's reference, the logical operator \<open>And\<close> and exactly two
  conditions, \<open>GreaterThanOrEqual\<close> on the start value and \<open>LessThanOrEqual\<close> on the end
  value. With a target stored, a valid range and a host that has \<open>applyJsonFilter\<close>, the
  filter manager hands the host one descriptor of the same shape, with the stored table
  and column as target.
\<close>

theorem filter_descriptor_shape:
  "createAdvancedFilter tz (Some col) r =
     Some \<lparr>schema = ''http://powerbi.com/product/schema#advanced'',
           target = getTargetFromQueryName (queryName col) (displayName col),
           logicalOperator = ''And'',
           conditions =
             [\<lparr>operator = ''GreaterThanOrEqual'',
               cond_value = formatDateForDirectQuery tz (startDate r) True\<rparr>,
              \<lparr>operator = ''LessThanOrEqual'',
               cond_value = formatDateForDirectQuery tz (endDate r) False\<rparr>],
           filterType = Some 0\<rparr>
   \<and> (dateColumnTarget fm = Some e \<and> dateColumnName fm = Some cn \<and> cn \<noteq> []
        \<and> tableQualifiedName fm = Some tn \<and> tn \<noteq> [] \<and> FilterManager_isValidDateRange dr
        \<and> has_applyJsonFilter h
      \<longrightarrow> (\<exists>sv ev. toISOString (startDate dr) = Some sv \<and> toISOString (endDate dr) = Some ev
            \<and> host_calls (applyDateFilter fm dr h) =
                [ApplyJsonFilter
                   (Some \<lparr>schema = ''https://powerbi.com/product/schema#advanced'',
                          target = \<lparr>table = tn, column = cn\<rparr>,
                          logicalOperator = ''And'',
                          conditions =
                            [\<lparr>operator = ''GreaterThanOrEqual'', cond_value = sv\<rparr>,
                             \<lparr>operator = ''LessThanOrEqual'', cond_value = ev\<rparr>],
                          filterType = None\<rparr>)
                   ''general'' ''filter'' 0]))"
proof -
  have a: "createAdvancedFilter tz (Some col) r =
     Some \<lparr>schema = ''http://powerbi.com/product/schema#advanced'',
           target = getTargetFromQueryName (queryName col) (displayName col),
           logicalOperator = ''And'',
           conditions =
             [\<lparr>operator = ''GreaterThanOrEqual'',
               cond_value = formatDateForDirectQuery tz (startDate r) True\<rparr>,
              \<lparr>operator = ''LessThanOrEqual'',
               cond_value = formatDateForDirectQuery tz (endDate r) False\<rparr>],
           filterType = Some 0\<rparr>"
    by (simp add: createAdvancedFilter_def models_AdvancedFilter_def Let_def)
  have b: "\<exists>sv ev. toISOString (startDate dr) = Some sv \<and> toISOString (endDate dr) = Some ev
            \<and> host_calls (applyDateFilter fm dr h) =
                [ApplyJsonFilter
                   (Some \<lparr>schema = ''https://powerbi.com/product/schema#advanced'',
                          target = \<lparr>table = tn, column = cn\<rparr>,
                          logicalOperator = ''And'',
                          conditions =
                            [\<lparr>operator = ''GreaterThanOrEqual'', cond_value = sv\<rparr>,
                             \<lparr>operator = ''LessThanOrEqual'', cond_value = ev\<rparr>],
                          filterType = None\<rparr>)
                   ''general'' ''filter'' 0]"
    if h: "dateColumnTarget fm = Some e" "dateColumnName fm = Some cn" "cn \<noteq> []"
      "tableQualifiedName fm = Some tn" "tn \<noteq> []" "FilterManager_isValidDateRange dr"
      "has_applyJsonFilter h"
  proof -
    obtain x y where xy: "startDate dr = TimeValue x" "endDate dr = TimeValue y"
      using h(6) unfolding FilterManager_isValidDateRange_def date_le_def
      by (cases "startDate dr"; cases "endDate dr") simp_all
    obtain sv ev where iso: "toISOString (TimeValue x) = Some sv" "toISOString (TimeValue y) = Some ev"
      by (simp add: toISOString_def)
    show ?thesis
      using h iso
      by (cases "throws h (ApplyJsonFilter
                   (Some \<lparr>schema = ''https://powerbi.com/product/schema#advanced'',
                          target = \<lparr>table = tn, column = cn\<rparr>,
                          logicalOperator = ''And'',
                          conditions =
                            [\<lparr>operator = ''GreaterThanOrEqual'', cond_value = sv\<rparr>,
                             \<lparr>operator = ''LessThanOrEqual'', cond_value = ev\<rparr>],
                          filterType = None\<rparr>)
                   ''general'' ''filter'' 0)")
        (simp_all add: xy applyDateFilter_def try_catch_def bind_def emit_def
          call_applyJsonFilter_def invoke_def host_calls_def Let_def)
  qed
  show ?thesis using a b by blast
qed

theorem filter_descriptor_shape_witness:
  "dateColumnTarget (checkDateColumnAvailability FilterManager_init [sales_view])
      = Some \<lparr>source = Some \<lparr>entity = ''Sales''\<rparr>\<rparr>
   \<and> dateColumnName (checkDateColumnAvailability FilterManager_init [sales_view])
      = Some ''OrderDate''
   \<and> ''OrderDate'' \<noteq> []
   \<and> tableQualifiedName (checkDateColumnAvailability FilterManager_init [sales_view])
      = Some ''Sales''
   \<and> ''Sales'' \<noteq> []
   \<and> FilterManager_isValidDateRange (calculateDateRange 0 1735659000000 Last7Days)
   \<and> has_applyJsonFilter full_host
   \<and> (\<exists>sv ev. toISOString (startDate (calculateDateRange 0 1735659000000 Last7Days)) = Some sv
         \<and> toISOString (endDate (calculateDateRange 0 1735659000000 Last7Days)) = Some ev
         \<and> host_calls
             (applyDateFilter (checkDateColumnAvailability FilterManager_init [sales_view])
                (calculateDateRange 0 1735659000000 Last7Days) full_host) =
             [ApplyJsonFilter
                (Some \<lparr>schema = ''https://powerbi.com/product/schema#advanced'',
                       target = \<lparr>table = ''Sales'', column = ''OrderDate''\<rparr>,
                       logicalOperator = ''And'',
                       conditions =
                         [\<lparr>operator = ''GreaterThanOrEqual'', cond_value = sv\<rparr>,
                          \<lparr>operator = ''LessThanOrEqual'', cond_value = ev\<rparr>],
                       filterType = None\<rparr>)
                ''general'' ''filter'' 0])"
proof -
  have f: "checkDateColumnAvailability FilterManager_init [sales_view] =
     \<lparr>dateColumnTarget = Some \<lparr>source = Some \<lparr>entity = ''Sales''\<rparr>\<rparr>,
      dateColumnName = Some ''OrderDate'', tableQualifiedName = Some ''Sales''\<rparr>"
    by code_simp
  have v: "FilterManager_isValidDateRange (calculateDateRange 0 1735659000000 Last7Days)"
    by code_simp
  have h: "has_applyJsonFilter full_host" by (simp add: full_host_def)
  show ?thesis
    using filter_descriptor_shape [of 0 "\<lparr>displayName = ''OrderDate'', queryName = ''Sales.OrderDate''\<rparr>"
        "\<lparr>startDate = InvalidDate, endDate = InvalidDate\<rparr>"
        "checkDateColumnAvailability FilterManager_init [sales_view]"
        "\<lparr>source = Some \<lparr>entity = ''Sales''\<rparr>\<rparr>" "''OrderDate''" "''Sales''"
        "calculateDateRange 0 1735659000000 Last7Days" full_host] v h
    by (simp add: f)
qed

text \<open>
  Claim C5, amended. \<open>getTargetFromQueryName\<close> maps \<open>Sales.OrderDate\<close> and
  \<open>Sales[OrderDate]\<close> to table \<open>Sales\<close>, column \<open>OrderDate\<close>. A reference with neither
  form goes to the table \<open>Table\<close>, and the column is the display name when there is one,
  the reference itself otherwise; an empty reference gives \<open>Table\<close> and the display name
  or \<open>Date\<close>. The function has no failing branch. The DirectQuery revision splits on
  the dot only: it leaves a bracket reference whole, under the table \<open>Table\<close>.
\<close>

theorem qualified_reference_parsing:
  "getTargetFromQueryName ''Sales.OrderDate'' dn = \<lparr>table = ''Sales'', column = ''OrderDate''\<rparr>
   \<and> getTargetFromQueryName ''Sales[OrderDate]'' dn = \<lparr>table = ''Sales'', column = ''OrderDate''\<rparr>
   \<and> getTargetFromQueryName ''OrderDate'' dn =
        \<lparr>table = ''Table'', column = (if dn = [] then ''OrderDate'' else dn)\<rparr>
   \<and> getTargetFromQueryName [] dn =
        \<lparr>table = ''Table'', column = (if dn = [] then ''Date'' else dn)\<rparr>
   \<and> map_option target
         (createAdvancedFilter_dq tz (Some \<lparr>displayName = dn, queryName = ''Sales.OrderDate''\<rparr>) r)
       = Some \<lparr>table = ''Sales'', column = ''OrderDate''\<rparr>
   \<and> map_option target
         (createAdvancedFilter_dq tz (Some \<lparr>displayName = dn, queryName = ''OrderDate''\<rparr>) r)
       = Some \<lparr>table = ''Table'', column = ''OrderDate''\<rparr>
   \<and> map_option target
         (createAdvancedFilter_dq tz (Some \<lparr>displayName = dn, queryName = ''Sales[OrderDate]''\<rparr>) r)
       = Some \<lparr>table = ''Table'', column = ''Sales[OrderDate]''\<rparr>"
  by (simp add: getTargetFromQueryName_def createAdvancedFilter_dq_def match_bracket_def
      is_line_terminator_def js_or_def part_def Let_def upt_rec)

text \<open>
  The claim as stated fails where the column has a display name of its own, and for the
  bracket form in the DirectQuery revision.
\<close>

theorem unparsable_reference_takes_display_name:
  "getTargetFromQueryName ''OrderDate'' ''Order Date''
     = \<lparr>table = ''Table'', column = ''Order Date''\<rparr>
   \<and> column (getTargetFromQueryName ''OrderDate'' ''Order Date'') \<noteq> ''OrderDate''
   \<and> map_option target
         (createAdvancedFilter_dq 0
            (Some \<lparr>displayName = ''OrderDate'', queryName = ''Sales[OrderDate]''\<rparr>)
            \<lparr>startDate = InvalidDate, endDate = InvalidDate\<rparr>)
       \<noteq> Some \<lparr>table = ''Sales'', column = ''OrderDate''\<rparr>"
  by (simp add: getTargetFromQueryName_def createAdvancedFilter_dq_def match_bracket_def
      is_line_terminator_def js_or_def part_def Let_def)

text \<open>
  Claim C6, amended. With no column bound, neither implementation calls the host. The
  filter service's \<open>applyFilter\<close> shows the error "Unable to apply filter - add a date
  field". The filter manager's \<open>applyDateFilter\<close> reports no error: it writes the
  warning "No date column available for filtering" and returns.
\<close>

theorem apply_without_bound_column:
  "applyFilter tz h None r = [ShowError ''Unable to apply filter - add a date field'']
   \<and> host_calls (applyFilter tz h None r) = []
   \<and> filter is_error (applyFilter tz h None r)
       = [ShowError ''Unable to apply filter - add a date field'']
   \<and> applyDateFilter FilterManager_init dr h =
        [ConsoleWarn ''No date column available for filtering'']
   \<and> (dateColumnTarget fm = None \<or> dateColumnName fm = None \<or> dateColumnName fm = Some []
        \<or> tableQualifiedName fm = None \<or> tableQualifiedName fm = Some []
      \<longrightarrow> applyDateFilter fm dr h = [ConsoleWarn ''No date column available for filtering'']
          \<and> host_calls (applyDateFilter fm dr h) = []
          \<and> filter is_error (applyDateFilter fm dr h) = []
          \<and> host_calls (handleApplyFilter fm dr h) = [])"
  by (auto simp add: applyFilter_def applyDateFilter_def handleApplyFilter_def
      FilterManager_init_def host_calls_def is_error_def try_catch_def emit_def
      split: option.splits)

theorem apply_without_bound_column_witness:
  "dateColumnTarget FilterManager_init = None
   \<and> applyDateFilter FilterManager_init (calculateDateRange 0 1735659000000 Last7Days) full_host
       = [ConsoleWarn ''No date column available for filtering'']
   \<and> host_calls
        (applyDateFilter FilterManager_init (calculateDateRange 0 1735659000000 Last7Days)
           full_host) = []
   \<and> filter is_error
        (applyDateFilter FilterManager_init (calculateDateRange 0 1735659000000 Last7Days)
           full_host) = []"
  using apply_without_bound_column [where fm = FilterManager_init and h = full_host
      and dr = "calculateDateRange 0 1735659000000 Last7Days" and tz = 0
      and r = "\<lparr>startDate = InvalidDate, endDate = InvalidDate\<rparr>"]
  by (simp add: FilterManager_init_def host_calls_def is_error_def)

text \<open>
  The claim as stated fails on the filter manager: with nothing bound, an apply of the
  last seven days ends without any error event, and the visual's debug log reads
  "Filter applied".
\<close>

theorem filter_manager_reports_no_error:
  "handleApplyFilter FilterManager_init (calculateDateRange 0 1735659000000 Last7Days) full_host
     = [ConsoleWarn ''No date column available for filtering'', DebugInfo ''Filter applied'']
   \<and> filter is_error
        (handleApplyFilter FilterManager_init (calculateDateRange 0 1735659000000 Last7Days)
           full_host) = []"
  by code_simp

section \<open>Clearing the filters\<close>

lemma run_plan_all_return:
  "list_all (\<lambda>c. throws h c = None) cs \<Longrightarrow> run_plan h cs = (cs, None)"
  by (induction cs) simp_all

lemma run_plan_first_throw:
  "list_all (\<lambda>c. throws h c = None) xs \<Longrightarrow> throws h c = Some e \<Longrightarrow>
   run_plan h (xs @ c # ys) = (xs @ [c], Some e)"
  by (induction xs) simp_all

lemma clearFilter_dq_plan:
  "host_calls (clearFilter_dq h) = fst (run_plan h (clear_plan h))
   \<and> messages (clearFilter_dq h) =
       (case snd (run_plan h (clear_plan h)) of
          Some e \<Rightarrow> [ShowError (''Error clearing filters: '' @ e)]
        | None \<Rightarrow>
            (if has_filterManager_clear h \<or> has_applyJsonFilter h
             then [ShowSuccess ''All filters cleared - showing full data'']
             else [ShowError ''Unable to clear filters - API not available'']))
   \<and> filter is_error (clearFilter_dq h) =
       (case snd (run_plan h (clear_plan h)) of
          Some e \<Rightarrow> [ConsoleError (''Clear filter error: '' @ e),
                     ShowError (''Error clearing filters: '' @ e)]
        | None \<Rightarrow>
            (if has_filterManager_clear h \<or> has_applyJsonFilter h then []
             else [ShowError ''Unable to clear filters - API not available'']))"
  unfolding clearFilter_dq_def clearFilter_dq_body_def clear_plan_def
  by (cases "has_filterManager_clear h"; cases "has_applyJsonFilter h";
      cases "has_createSelectionManager h"; cases "has_selectionManager_clear h";
      cases "throws h FilterManager_clear";
      cases "throws h (ApplyJsonFilter None ''general'' ''filter'' 1)";
      cases "throws h (ApplyJsonFilter None ''advanced'' ''filter'' 1)";
      cases "throws h CreateSelectionManager"; cases "throws h SelectionManager_clear")
    (simp_all add: bind_invoke_returns bind_invoke_throws bind_ret bind_emit bind_pair
      try_catch_simps fst_snd_ret fst_snd_emit fst_snd_invoke messages_def host_calls_def
      is_error_def)

lemma clearFilter_single_call:
  "host_calls (clearFilter h) =
     (if has_applyJsonFilter h then [ApplyJsonFilter None ''general'' ''filter'' 1] else [])"
  "messages (clearFilter h) =
     (if has_applyJsonFilter h \<and> throws h (ApplyJsonFilter None ''general'' ''filter'' 1) = None
      then [ShowSuccess ''All filters cleared - showing full data'']
      else [ShowError ''Error clearing filters.''])"
  by (cases "throws h (ApplyJsonFilter None ''general'' ''filter'' 1)";
      simp add: clearFilter_def call_applyJsonFilter_def bind_invoke_returns
        bind_invoke_throws bind_raise try_catch_simps fst_snd_emit messages_def host_calls_def)+

text \<open>
  Claim C7, amended. \<open>clearFilter\<close> of the DirectQuery revision makes, in order, the
  calls the host has a capability for and skips the others. All of them share one
  \<open>try\<close> block, so the first call that throws, whichever it is, ends the sequence: the
  calls after it are not made, the error is written with \<open>console.error\<close> and the user
  is shown "Error clearing filters: ..." and no success message. When no call throws,
  the user is shown success as soon as the filter manager or \<open>applyJsonFilter\<close> is
  there, and "Unable to clear filters - API not available" when neither is. The
  single-file revision makes the general-scope removal call only, and shows success
  exactly when that call exists and returns. The first two conjuncts say what running
  a plan is.
\<close>

theorem clear_filter_outcome:
  "(list_all (\<lambda>c. throws h c = None) cs \<longrightarrow> run_plan h cs = (cs, None))
   \<and> (list_all (\<lambda>c. throws h c = None) xs \<and> throws h c = Some e
        \<longrightarrow> run_plan h (xs @ c # ys) = (xs @ [c], Some e))
   \<and> host_calls (clearFilter_dq h) = fst (run_plan h (clear_plan h))
   \<and> messages (clearFilter_dq h) =
       (case snd (run_plan h (clear_plan h)) of
          Some m \<Rightarrow> [ShowError (''Error clearing filters: '' @ m)]
        | None \<Rightarrow>
            (if has_filterManager_clear h \<or> has_applyJsonFilter h
             then [ShowSuccess ''All filters cleared - showing full data'']
             else [ShowError ''Unable to clear filters - API not available'']))
   \<and> filter is_error (clearFilter_dq h) =
       (case snd (run_plan h (clear_plan h)) of
          Some m \<Rightarrow> [ConsoleError (''Clear filter error: '' @ m),
                     ShowError (''Error clearing filters: '' @ m)]
        | None \<Rightarrow>
            (if has_filterManager_clear h \<or> has_applyJsonFilter h then []
             else [ShowError ''Unable to clear filters - API not available'']))
   \<and> host_calls (clearFilter h) =
       (if has_applyJsonFilter h then [ApplyJsonFilter None ''general'' ''filter'' 1] else [])
   \<and> messages (clearFilter h) =
       (if has_applyJsonFilter h \<and> throws h (ApplyJsonFilter None ''general'' ''filter'' 1) = None
        then [ShowSuccess ''All filters cleared - showing full data'']
        else [ShowError ''Error clearing filters.''])"
  using run_plan_all_return [of h cs] run_plan_first_throw [of h xs c e ys]
    clearFilter_dq_plan [of h] clearFilter_single_call [of h]
  by blast

theorem clear_filter_outcome_witness:
  "list_all (\<lambda>c. throws general_scope_host c = None)
      [ApplyJsonFilter None ''general'' ''filter'' 1]
   \<and> throws general_scope_host (ApplyJsonFilter None ''advanced'' ''filter'' 1)
        = Some ''scope not supported''
   \<and> clear_plan general_scope_host =
        [ApplyJsonFilter None ''general'' ''filter'' 1] @
        ApplyJsonFilter None ''advanced'' ''filter'' 1 #
        [CreateSelectionManager, SelectionManager_clear]
   \<and> host_calls (clearFilter_dq general_scope_host) =
        [ApplyJsonFilter None ''general'' ''filter'' 1,
         ApplyJsonFilter None ''advanced'' ''filter'' 1]
   \<and> messages (clearFilter_dq general_scope_host) =
        [ShowError ''Error clearing filters: scope not supported'']
   \<and> list_all (\<lambda>c. throws full_host c = None) (clear_plan full_host)
   \<and> host_calls (clearFilter_dq full_host) =
        [FilterManager_clear, ApplyJsonFilter None ''general'' ''filter'' 1,
         ApplyJsonFilter None ''advanced'' ''filter'' 1, CreateSelectionManager,
         SelectionManager_clear]
   \<and> messages (clearFilter_dq full_host) =
        [ShowSuccess ''All filters cleared - showing full data'']"
proof -
  have p: "clear_plan general_scope_host =
        [ApplyJsonFilter None ''general'' ''filter'' 1] @
        ApplyJsonFilter None ''advanced'' ''filter'' 1 #
        [CreateSelectionManager, SelectionManager_clear]"
    by (simp add: clear_plan_def general_scope_host_def)
  have q: "clear_plan full_host =
        [FilterManager_clear, ApplyJsonFilter None ''general'' ''filter'' 1,
         ApplyJsonFilter None ''advanced'' ''filter'' 1, CreateSelectionManager,
         SelectionManager_clear]"
    by (simp add: clear_plan_def full_host_def)
  have g1: "list_all (\<lambda>c. throws general_scope_host c = None)
      [ApplyJsonFilter None ''general'' ''filter'' 1]"
    by (simp add: general_scope_host_def)
  have g2: "throws general_scope_host (ApplyJsonFilter None ''advanced'' ''filter'' 1)
        = Some ''scope not supported''"
    by (simp add: general_scope_host_def)
  have f: "list_all (\<lambda>c. throws full_host c = None) (clear_plan full_host)"
    unfolding q by (simp add: full_host_def)
  have cap: "has_filterManager_clear full_host" by (simp add: full_host_def)
  note G = clear_filter_outcome [of general_scope_host
        "[ApplyJsonFilter None ''general'' ''filter'' 1]"
        "[ApplyJsonFilter None ''general'' ''filter'' 1]"
        "ApplyJsonFilter None ''advanced'' ''filter'' 1" "''scope not supported''"
        "[CreateSelectionManager, SelectionManager_clear]", folded p]
  note F = clear_filter_outcome [of full_host "clear_plan full_host" "[]"
        "ApplyJsonFilter None ''advanced'' ''filter'' 1" "''scope not supported''" "[]"]
  from G g1 g2 have rg: "run_plan general_scope_host (clear_plan general_scope_host) =
      ([ApplyJsonFilter None ''general'' ''filter'' 1] @
         [ApplyJsonFilter None ''advanced'' ''filter'' 1], Some ''scope not supported'')"
    by blast
  from F f have rf: "run_plan full_host (clear_plan full_host) = (clear_plan full_host, None)"
    by blast
  from G have hg: "host_calls (clearFilter_dq general_scope_host) =
        [ApplyJsonFilter None ''general'' ''filter'' 1,
         ApplyJsonFilter None ''advanced'' ''filter'' 1]"
    unfolding rg by simp
  from G have mg: "messages (clearFilter_dq general_scope_host) =
        [ShowError ''Error clearing filters: scope not supported'']"
    unfolding rg by simp
  from F have hf: "host_calls (clearFilter_dq full_host) = clear_plan full_host"
    unfolding rf by simp
  from F cap have mf: "messages (clearFilter_dq full_host) =
        [ShowSuccess ''All filters cleared - showing full data'']"
    unfolding rf by simp
  show ?thesis
    using g1 g2 p hg mg f hf [unfolded q] mf by blast
qed

text \<open>
  The claim as stated fails on the host that clears the general scope and throws on the
  advanced one: the outcome is the error message.
\<close>

theorem advanced_scope_failure_is_surfaced:
  "HostCall (ApplyJsonFilter None ''general'' ''filter'' 1) \<in> set (clearFilter_dq general_scope_host)
   \<and> messages (clearFilter_dq general_scope_host)
       = [ShowError ''Error clearing filters: scope not supported'']
   \<and> ShowSuccess ''All filters cleared - showing full data''
       \<notin> set (clearFilter_dq general_scope_host)"
  by (simp add: clearFilter_dq_def clearFilter_dq_body_def general_scope_host_def
      bind_invoke_returns bind_invoke_throws bind_ret bind_emit bind_pair
      try_catch_simps fst_snd_ret fst_snd_emit messages_def)

section \<open>Losing the bound column\<close>

lemma hasDateColumn_not_found_keeps_state:
  "\<not> fst (hasDateColumn fm dv) \<Longrightarrow> snd (hasDateColumn fm dv) = fm"
  by (auto simp add: hasDateColumn_def split: option.splits)

lemma updateDataColumnInfo_no_date_column:
  "updateDataColumnInfo [] = None"
  "categories dv = None \<or> categories dv = Some [] \<Longrightarrow>
   metadata_columns dv = None \<or> (\<exists>cs. metadata_columns dv = Some cs
      \<and> list_all (\<lambda>c. \<not> type_dateTime c \<and> \<not> type_date c) cs) \<Longrightarrow>
   updateDataColumnInfo (dv # rest) = None"
proof -
  show "updateDataColumnInfo [] = None"
    by (simp add: updateDataColumnInfo_def pickMetaDateCol_def)
  have nf: "find P cs = None" if "list_all (\<lambda>c. \<not> P c) cs" for P and cs :: "MetadataColumn list"
    using that by (induction cs) simp_all
  assume c: "categories dv = None \<or> categories dv = Some []"
    and m: "metadata_columns dv = None \<or> (\<exists>cs. metadata_columns dv = Some cs
      \<and> list_all (\<lambda>c. \<not> type_dateTime c \<and> \<not> type_date c) cs)"
  have "pickMetaDateCol (case metadata_columns dv of None \<Rightarrow> [] | Some cs \<Rightarrow> cs) = None"
  proof (cases "metadata_columns dv")
    case None
    then show ?thesis by (simp add: pickMetaDateCol_def)
  next
    case (Some cs)
    then have la: "list_all (\<lambda>c. \<not> type_dateTime c \<and> \<not> type_date c) cs" using m by simp
    have "find (\<lambda>c. type_dateTime c \<or> type_date c) cs = None"
      by (rule nf) (use la in \<open>simp add: list_all_iff\<close>)
    moreover have "find (\<lambda>c. (role_date c \<or> role_category c) \<and> (type_dateTime c \<or> type_date c)) cs = None"
      by (rule nf) (use la in \<open>simp add: list_all_iff\<close>)
    ultimately show ?thesis by (simp add: pickMetaDateCol_def Some)
  qed
  then show "updateDataColumnInfo (dv # rest) = None"
    using c by (auto simp add: updateDataColumnInfo_def Let_def)
qed

lemma single_file_visual_drops_binding:
  "updateDataColumnInfo [sales_view]
     = Some \<lparr>displayName = ''OrderDate'', queryName = ''Sales.OrderDate''\<rparr>"
  "updateDataColumnInfo [text_view] = None"
  "host_calls (applyFilter tz h (updateDataColumnInfo [text_view]) r) = []"
proof -
  show "updateDataColumnInfo [sales_view]
     = Some \<lparr>displayName = ''OrderDate'', queryName = ''Sales.OrderDate''\<rparr>"
    by code_simp
  show n: "updateDataColumnInfo [text_view] = None" by code_simp
  show "host_calls (applyFilter tz h (updateDataColumnInfo [text_view]) r) = []"
    by (simp add: n applyFilter_def host_calls_def)
qed

text \<open>
  Claim C8, on the filter manager. After an update with the date column
  \<open>Sales.OrderDate\<close>, an update whose data view has a text column only is answered with
  \<open>False\<close> by \<open>hasDateColumn\<close>, which leaves the stored target as it was; the next apply
  sends the host a filter on \<open>Sales.OrderDate\<close>.
\<close>

theorem stale_target_after_column_removed:
  "checkDateColumnAvailability FilterManager_init [sales_view] =
     \<lparr>dateColumnTarget = Some \<lparr>source = Some \<lparr>entity = ''Sales''\<rparr>\<rparr>,
      dateColumnName = Some ''OrderDate'', tableQualifiedName = Some ''Sales''\<rparr>
   \<and> \<not> fst (hasDateColumn (checkDateColumnAvailability FilterManager_init [sales_view])
              (Some text_view))
   \<and> checkDateColumnAvailability (checkDateColumnAvailability FilterManager_init [sales_view])
        [text_view] =
     checkDateColumnAvailability FilterManager_init [sales_view]
   \<and> host_calls
        (handleApplyFilter
           (checkDateColumnAvailability
              (checkDateColumnAvailability FilterManager_init [sales_view]) [text_view])
           (calculateDateRange 0 1735659000000 Last7Days) full_host) =
       [ApplyJsonFilter
          (Some \<lparr>schema = ''https://powerbi.com/product/schema#advanced'',
                 target = \<lparr>table = ''Sales'', column = ''OrderDate''\<rparr>,
                 logicalOperator = ''And'',
                 conditions =
                   [\<lparr>operator = ''GreaterThanOrEqual'',
                     cond_value = ''2024-12-24T00:00:00.000Z''\<rparr>,
                    \<lparr>operator = ''LessThanOrEqual'',
                     cond_value = ''2024-12-31T23:59:59.999Z''\<rparr>],
                 filterType = None\<rparr>)
          ''general'' ''filter'' 0]"
  by code_simp

section \<open>The min/max scan\<close>

lemma minmax_step_invalid: "parse v = InvalidDate \<Longrightarrow> minmax_step parse acc v = acc"
  by (simp add: minmax_step_def isNaN_time_def)

lemma foldl_minmax_all_invalid:
  "\<forall>v\<in>set xs. parse v = InvalidDate \<Longrightarrow> foldl (minmax_step parse) acc xs = acc"
  by (induction xs arbitrary: acc) (simp_all add: minmax_step_invalid)

lemma minmax_step_invariant:
  assumes "minDate acc = None \<longleftrightarrow> maxDate acc = None"
    and "\<forall>mn mx. minDate acc = Some mn \<longrightarrow> maxDate acc = Some mx \<longrightarrow>
           date_le mn mx \<and> mn \<in> parse ` S \<and> mx \<in> parse ` S"
  shows "(minDate (minmax_step parse acc v) = None \<longleftrightarrow> maxDate (minmax_step parse acc v) = None)
    \<and> (\<forall>mn mx. minDate (minmax_step parse acc v) = Some mn \<longrightarrow>
         maxDate (minmax_step parse acc v) = Some mx \<longrightarrow>
           date_le mn mx \<and> mn \<in> parse ` insert v S \<and> mx \<in> parse ` insert v S)"
proof (cases "parse v")
  case InvalidDate
  then have "minmax_step parse acc v = acc" by (rule minmax_step_invalid)
  then show ?thesis using assms by auto
next
  case (TimeValue t)
  have pv: "TimeValue t \<in> parse ` insert v S" using TimeValue by (simp add: image_iff)
  show ?thesis
  proof (cases "minDate acc")
    case None
    then have mx: "maxDate acc = None" using assms(1) by simp
    have "minmax_step parse acc v =
        \<lparr>minDate = Some (TimeValue t), maxDate = Some (TimeValue t)\<rparr>"
      by (simp add: minmax_step_def Let_def isNaN_time_def None mx TimeValue)
    then show ?thesis using pv by (simp add: date_le_def)
  next
    case (Some mn)
    then obtain mx where mx: "maxDate acc = Some mx" using assms(1) by auto
    have old: "date_le mn mx" "mn \<in> parse ` S" "mx \<in> parse ` S"
      using assms(2) Some mx by simp_all
    obtain a b where ab: "mn = TimeValue a" "mx = TimeValue b" "a \<le> b"
      using old(1) by (cases mn; cases mx) (simp_all add: date_le_def)
    have sub: "TimeValue a \<in> parse ` insert v S" "TimeValue b \<in> parse ` insert v S"
      using old ab by auto
    have step: "minmax_step parse acc v =
        \<lparr>minDate = Some (if t < a then TimeValue t else TimeValue a),
         maxDate = Some (if b < t then TimeValue t else TimeValue b)\<rparr>"
      by (simp add: minmax_step_def Let_def isNaN_time_def Some mx TimeValue ab date_lt_def
          date_gt_def)
    show ?thesis
      unfolding step using pv sub ab(3) by (simp add: date_le_def)
  qed
qed

lemma foldl_minmax_invariant:
  assumes "minDate acc = None \<longleftrightarrow> maxDate acc = None"
    and "\<forall>mn mx. minDate acc = Some mn \<longrightarrow> maxDate acc = Some mx \<longrightarrow>
           date_le mn mx \<and> mn \<in> parse ` S \<and> mx \<in> parse ` S"
  shows "(minDate (foldl (minmax_step parse) acc xs) = None
            \<longleftrightarrow> maxDate (foldl (minmax_step parse) acc xs) = None)
         \<and> (\<forall>mn mx. minDate (foldl (minmax_step parse) acc xs) = Some mn
               \<longrightarrow> maxDate (foldl (minmax_step parse) acc xs) = Some mx
               \<longrightarrow> date_le mn mx \<and> mn \<in> parse ` (S \<union> set xs) \<and> mx \<in> parse ` (S \<union> set xs))"
  using assms
proof (induction xs arbitrary: acc S)
  case Nil
  then show ?case by simp
next
  case (Cons x xs)
  have st: "(minDate (minmax_step parse acc x) = None \<longleftrightarrow> maxDate (minmax_step parse acc x) = None)
    \<and> (\<forall>mn mx. minDate (minmax_step parse acc x) = Some mn \<longrightarrow>
         maxDate (minmax_step parse acc x) = Some mx \<longrightarrow>
           date_le mn mx \<and> mn \<in> parse ` insert x S \<and> mx \<in> parse ` insert x S)"
    by (rule minmax_step_invariant [OF Cons.prems])
  have eq: "insert x S \<union> set xs = S \<union> set (x # xs)" by auto
  show ?case
    using Cons.IH [of "minmax_step parse acc x" "insert x S"] st unfolding eq [symmetric]
    by simp
qed

lemma scan_from_empty:
  "(minDate (foldl (minmax_step parse) \<lparr>minDate = None, maxDate = None\<rparr> xs) = None
      \<longleftrightarrow> maxDate (foldl (minmax_step parse) \<lparr>minDate = None, maxDate = None\<rparr> xs) = None)
   \<and> (\<forall>mn mx. minDate (foldl (minmax_step parse) \<lparr>minDate = None, maxDate = None\<rparr> xs) = Some mn
         \<longrightarrow> maxDate (foldl (minmax_step parse) \<lparr>minDate = None, maxDate = None\<rparr> xs) = Some mx
         \<longrightarrow> date_le mn mx \<and> mn \<in> parse ` set xs \<and> mx \<in> parse ` set xs)"
  using foldl_minmax_invariant [of "\<lparr>minDate = None, maxDate = None\<rparr>" parse "{}" xs] by simp

text \<open>
  Claim C10. \<open>findMinMaxDates\<close> returns a null minimum exactly when it returns a null
  maximum; when both are dates, the minimum is not after the maximum and each is the
  parsed value of an element of the array; a null array, an empty one and one whose
  elements all parse to an invalid Date give two nulls. The same holds for the scan of
  the DirectQuery revision, which converts with \<open>new Date(item)\<close>.
\<close>

theorem findMinMaxDates_result:
  "(minDate (findMinMaxDates tz native arr) = None
      \<longleftrightarrow> maxDate (findMinMaxDates tz native arr) = None)
   \<and> (\<forall>xs mn mx. arr = Some xs \<and> minDate (findMinMaxDates tz native arr) = Some mn
          \<and> maxDate (findMinMaxDates tz native arr) = Some mx
        \<longrightarrow> date_le mn mx \<and> mn \<in> parseDate tz native ` set xs
            \<and> mx \<in> parseDate tz native ` set xs)
   \<and> (arr = None \<or> (\<exists>xs. arr = Some xs \<and> (\<forall>v\<in>set xs. parseDate tz native v = InvalidDate))
        \<longrightarrow> findMinMaxDates tz native arr = \<lparr>minDate = None, maxDate = None\<rparr>)
   \<and> (minDate (findMinMaxDates_dq newDate arr') = None
      \<longleftrightarrow> maxDate (findMinMaxDates_dq newDate arr') = None)
   \<and> (\<forall>xs mn mx. arr' = Some xs \<and> minDate (findMinMaxDates_dq newDate arr') = Some mn
          \<and> maxDate (findMinMaxDates_dq newDate arr') = Some mx
        \<longrightarrow> date_le mn mx \<and> mn \<in> newDate ` set xs \<and> mx \<in> newDate ` set xs)
   \<and> (arr' = None \<or> (\<exists>xs. arr' = Some xs \<and> (\<forall>v\<in>set xs. newDate v = InvalidDate))
        \<longrightarrow> findMinMaxDates_dq newDate arr' = \<lparr>minDate = None, maxDate = None\<rparr>)"
proof -
  have A: "(minDate (findMinMaxDates tz native arr) = None
      \<longleftrightarrow> maxDate (findMinMaxDates tz native arr) = None)"
    using scan_from_empty [of "parseDate tz native"]
    by (cases arr) (simp_all add: findMinMaxDates_def)
  have B: "date_le mn mx \<and> mn \<in> parseDate tz native ` set xs \<and> mx \<in> parseDate tz native ` set xs"
    if "arr = Some xs" "minDate (findMinMaxDates tz native arr) = Some mn"
      "maxDate (findMinMaxDates tz native arr) = Some mx" for xs mn mx
    using that scan_from_empty [of "parseDate tz native" xs]
    by (cases "xs = []") (simp_all add: findMinMaxDates_def)
  have C: "findMinMaxDates tz native arr = \<lparr>minDate = None, maxDate = None\<rparr>"
    if "arr = None \<or> (\<exists>xs. arr = Some xs \<and> (\<forall>v\<in>set xs. parseDate tz native v = InvalidDate))"
    using that by (auto simp add: findMinMaxDates_def foldl_minmax_all_invalid)
  have A': "(minDate (findMinMaxDates_dq newDate arr') = None
      \<longleftrightarrow> maxDate (findMinMaxDates_dq newDate arr') = None)"
    using scan_from_empty [of newDate]
    by (cases arr') (simp_all add: findMinMaxDates_dq_def)
  have B': "date_le mn mx \<and> mn \<in> newDate ` set xs \<and> mx \<in> newDate ` set xs"
    if "arr' = Some xs" "minDate (findMinMaxDates_dq newDate arr') = Some mn"
      "maxDate (findMinMaxDates_dq newDate arr') = Some mx" for xs mn mx
    using that scan_from_empty [of newDate xs]
    by (cases "xs = []") (simp_all add: findMinMaxDates_dq_def)
  have C': "findMinMaxDates_dq newDate arr' = \<lparr>minDate = None, maxDate = None\<rparr>"
    if "arr' = None \<or> (\<exists>xs. arr' = Some xs \<and> (\<forall>v\<in>set xs. newDate v = InvalidDate))"
    using that by (auto simp add: findMinMaxDates_dq_def foldl_minmax_all_invalid)
  show ?thesis using A B C A' B' C' by blast
qed

theorem findMinMaxDates_result_witness:
  "minDate (findMinMaxDates 0 (\<lambda>s. InvalidDate)
      (Some [Str ''2024-12-24'', Str ''junk'', DateObj (TimeValue 1704103200000), Falsy]))
     = Some (TimeValue 1704067200000)
   \<and> maxDate (findMinMaxDates 0 (\<lambda>s. InvalidDate)
      (Some [Str ''2024-12-24'', Str ''junk'', DateObj (TimeValue 1704103200000), Falsy]))
     = Some (TimeValue 1734998400000)
   \<and> date_le (TimeValue 1704067200000) (TimeValue 1734998400000)
   \<and> TimeValue 1704067200000 \<in> parseDate 0 (\<lambda>s. InvalidDate) `
        set [Str ''2024-12-24'', Str ''junk'', DateObj (TimeValue 1704103200000), Falsy]
   \<and> TimeValue 1734998400000 \<in> parseDate 0 (\<lambda>s. InvalidDate) `
        set [Str ''2024-12-24'', Str ''junk'', DateObj (TimeValue 1704103200000), Falsy]
   \<and> parseDate 0 (\<lambda>s. InvalidDate) (Str ''junk'') = InvalidDate
   \<and> parseDate 0 (\<lambda>s. InvalidDate) Falsy = InvalidDate
   \<and> findMinMaxDates 0 (\<lambda>s. InvalidDate) (Some [Str ''junk'', Falsy])
     = \<lparr>minDate = None, maxDate = None\<rparr>"
proof -
  have e: "findMinMaxDates 0 (\<lambda>s. InvalidDate)
      (Some [Str ''2024-12-24'', Str ''junk'', DateObj (TimeValue 1704103200000), Falsy])
     = \<lparr>minDate = Some (TimeValue 1704067200000), maxDate = Some (TimeValue 1734998400000)\<rparr>"
    by code_simp
  have j: "parseDate 0 (\<lambda>s. InvalidDate) (Str ''junk'') = InvalidDate"
    "parseDate 0 (\<lambda>s. InvalidDate) Falsy = InvalidDate"
    by code_simp+
  show ?thesis
    using findMinMaxDates_result [of 0 "\<lambda>s. InvalidDate"
        "Some [Str ''2024-12-24'', Str ''junk'', DateObj (TimeValue 1704103200000), Falsy]"
        "\<lambda>s. InvalidDate" "None :: string list option"]
      findMinMaxDates_result [of 0 "\<lambda>s. InvalidDate" "Some [Str ''junk'', Falsy]"
        "\<lambda>s. InvalidDate" "None :: string list option"]
      e j
    by auto
qed

section \<open>Formatting and parsing dates\<close>

lemma lt10_cases:
  "k < 10 \<Longrightarrow> k = 0 \<or> k = 1 \<or> k = 2 \<or> k = 3 \<or> k = 4 \<or> k = 5 \<or> k = 6 \<or> k = 7 \<or> k = 8 \<or> k = (9::nat)"
  by presburger

lemma digit_char_props:
  assumes "k < 10"
  shows "is_digit (digit_char k)" "digit_value (digit_char k) = k"
    "\<not> is_space (digit_char k)" "digit_char k \<noteq> CHR ''-''" "digit_char k \<noteq> CHR ''/''"
  using lt10_cases [OF assms]
  by (elim disjE; simp add: digit_char_def is_digit_def digit_value_def is_space_def)+

lemma string_of_nat_1: "n < 10 \<Longrightarrow> string_of_nat n = [digit_char n]"
  by (simp add: string_of_nat.simps)

lemma string_of_nat_step:
  "10 \<le> n \<Longrightarrow> string_of_nat n = string_of_nat (n div 10) @ [digit_char (n mod 10)]"
  by (subst string_of_nat.simps) simp

lemma string_of_nat_2:
  assumes "10 \<le> n" "n < 100"
  shows "string_of_nat n = [digit_char (n div 10), digit_char (n mod 10)]"
proof -
  have "n div 10 < 10" using assms by simp
  then show ?thesis using assms by (simp add: string_of_nat_step string_of_nat_1)
qed

lemma string_of_nat_4:
  assumes "1000 \<le> n" "n < 10000"
  shows "string_of_nat n =
    [digit_char (n div 1000), digit_char (n div 100 mod 10), digit_char (n div 10 mod 10),
     digit_char (n mod 10)]"
proof -
  have h: "n div 10 div 10 = n div 100" "n div 100 div 10 = n div 1000"
    by (simp_all add: div_mult2_eq [symmetric])
  have a: "string_of_nat n = string_of_nat (n div 10) @ [digit_char (n mod 10)]"
    using assms by (intro string_of_nat_step) simp
  have b: "string_of_nat (n div 10) = string_of_nat (n div 100) @ [digit_char (n div 10 mod 10)]"
    using assms string_of_nat_step [of "n div 10"] by (simp add: h)
  have c: "string_of_nat (n div 100) = [digit_char (n div 1000), digit_char (n div 100 mod 10)]"
    using assms string_of_nat_2 [of "n div 100"] by (simp add: h)
  show ?thesis by (simp add: a b c)
qed

lemma to_number_2:
  assumes "n < 100"
  shows "to_number [digit_char (n div 10), digit_char (n mod 10)] = int n"
proof -
  have "n div 10 < 10" "n mod 10 < 10" using assms by simp_all
  then show ?thesis by (simp add: to_number_def digit_char_props)
qed

lemma to_number_4:
  assumes "n < 10000"
  shows "to_number [digit_char (n div 1000), digit_char (n div 100 mod 10),
      digit_char (n div 10 mod 10), digit_char (n mod 10)] = int n"
proof -
  have d: "n div 1000 < 10" "n div 100 mod 10 < 10" "n div 10 mod 10 < 10" "n mod 10 < 10"
    using assms by simp_all
  have h: "n div 10 div 10 = n div 100" "n div 100 div 10 = n div 1000"
    by (simp_all add: div_mult2_eq [symmetric])
  define q1 r1 q2 r2 q3 r3 where "q1 = n div 10" and "r1 = n mod 10" and "q2 = n div 100"
    and "r2 = n div 10 mod 10" and "q3 = n div 1000" and "r3 = n div 100 mod 10"
  have e1: "n = 10 * q1 + r1" unfolding q1_def r1_def by simp
  have e2: "q1 = 10 * q2 + r2"
    unfolding q1_def q2_def r2_def using mult_div_mod_eq [of 10 "n div 10"] by (simp add: h)
  have e3: "q2 = 10 * q3 + r3"
    unfolding q2_def q3_def r3_def using mult_div_mod_eq [of 10 "n div 100"] by (simp add: h)
  have "10 * (10 * (10 * q3 + r3) + r2) + r1 = n"
    by (simp only: e3 [symmetric] e2 [symmetric] e1 [symmetric])
  then have "10 * (10 * (10 * (n div 1000) + n div 100 mod 10) + n div 10 mod 10) + n mod 10 = n"
    unfolding q3_def r3_def r2_def r1_def .
  then show ?thesis by (simp add: to_number_def digit_char_props d)
qed


lemma pad_two_digits:
  assumes "n < 100"
  shows "padStart (string_of_nat n) 2 (CHR ''0'') = [digit_char (n div 10), digit_char (n mod 10)]"
proof (cases "n < 10")
  case True
  then show ?thesis by (simp add: padStart_def string_of_nat_1 digit_char_def)
next
  case False
  then show ?thesis using assms by (simp add: padStart_def string_of_nat_2)
qed

lemma trim_no_space:
  assumes "s \<noteq> []" "\<not> is_space (hd s)" "\<not> is_space (last s)"
  shows "trim s = s"
proof -
  have a: "dropWhile is_space s = s" using assms(1,2) by (cases s) simp_all
  have "rev s \<noteq> []" "\<not> is_space (hd (rev s))" using assms(1,3) by (simp_all add: hd_rev)
  then have b: "dropWhile is_space (rev s) = rev s" by (cases "rev s") simp_all
  show ?thesis by (simp add: trim_def a b)
qed

lemma match_iso_digits:
  assumes "is_digit a" "is_digit b" "is_digit c" "is_digit d" "is_digit e" "is_digit f"
    "is_digit g" "is_digit h"
  shows "match_iso ([a, b, c, d] @ ''-'' @ [e, f] @ ''-'' @ [g, h]) = Some ([a, b, c, d], [e, f], [g, h])"
  using assms by (simp add: match_iso_def)

lemma new_Date_ymd_midnight:
  "new_Date_ymd tz y m d = TimeValue u \<Longrightarrow> TimeWithinDay (LocalTime tz u) = 0"
  by (auto simp add: new_Date_ymd_def TimeClip_def UTC_def MakeDate_def MakeTime_def
      LocalTime_def TimeWithinDay_def Let_def split: option.splits if_splits)

lemma parse_text_midnight:
  "parse_text tz native s = TimeValue u \<Longrightarrow> TimeWithinDay (LocalTime tz u) = 0"
  by (auto simp add: parse_text_def Let_def split: option.splits if_splits
      dest: new_Date_ymd_midnight)

lemma parseDate_midnight:
  "parseDate tz native v = TimeValue u \<Longrightarrow> TimeWithinDay (LocalTime tz u) = 0"
  by (cases v)
    (auto simp add: parseDate_def split: if_splits dest: new_Date_ymd_midnight parse_text_midnight)

lemma parseDate_unrecognised:
  assumes "match_iso (trim s) = None" "match_slash (trim s) = None"
    "native (trim s) = InvalidDate"
  shows "parseDate tz native (Str s) = InvalidDate" "parseDate tz native (Other s) = InvalidDate"
  using assms by (simp_all add: parseDate_def parse_text_def isNaN_time_def)


lemma new_Date_of_fields:
  assumes "1000 \<le> YearFromTime (LocalTime tz t)" "YearFromTime (LocalTime tz t) \<le> 9999"
    "abs tz \<le> msPerDay"
  shows "new_Date_ymd tz (Some (YearFromTime (LocalTime tz t)))
           (Some (MonthFromTime (LocalTime tz t))) (Some (DateFromTime (LocalTime tz t)))
         = TimeValue (dayStart tz t)"
proof -
  define l where "l = LocalTime tz t"
  have md: "MakeDay (YearFromTime l) (MonthFromTime l) (DateFromTime l) = Day l"
    using MakeDay_fields [of l 0] by simp
  have nb: "- 427274 \<le> Day l" "Day l \<le> 2932956"
    using year_bounds_days [of "Day l"] assms(1,2) unfolding YearFromTime_def l_def by simp_all
  have ds: "dayStart tz t = Day l * msPerDay - tz"
    by (simp add: dayStart_def l_def LocalTime_def)
  have "abs (Day l * msPerDay - tz) \<le> maxTimeValue"
    using nb assms(3) unfolding msPerDay_def maxTimeValue_def by linarith
  then have tc: "TimeClip (Day l * msPerDay - tz) = TimeValue (Day l * msPerDay - tz)"
    by (rule TimeClip_in_range)
  have y: "\<not> (0 \<le> YearFromTime l \<and> YearFromTime l \<le> 99)"
    using assms(1) unfolding l_def by simp
  show ?thesis
    unfolding l_def [symmetric]
    by (simp add: new_Date_ymd_def Let_def y md UTC_def MakeDate_def MakeTime_def tc ds)
qed

lemma parseDate_formatDate:
  assumes "1000 \<le> YearFromTime (LocalTime tz t)" "YearFromTime (LocalTime tz t) \<le> 9999"
    "abs tz \<le> msPerDay"
  shows "parseDate tz native (Str (formatDate tz (Some (TimeValue t)))) = TimeValue (dayStart tz t)"
proof -
  define l where "l = LocalTime tz t"
  define y where "y = nat (YearFromTime l)"
  define m where "m = nat (MonthFromTime l + 1)"
  define d where "d = nat (DateFromTime l)"
  define a b c e where "a = digit_char (y div 1000)" and "b = digit_char (y div 100 mod 10)"
    and "c = digit_char (y div 10 mod 10)" and "e = digit_char (y mod 10)"
  define f g where "f = digit_char (m div 10)" and "g = digit_char (m mod 10)"
  define h k where "h = digit_char (d div 10)" and "k = digit_char (d mod 10)"
  have mr: "0 \<le> MonthFromTime l" "MonthFromTime l \<le> 11"
    unfolding MonthFromTime_def by (rule civil_from_days_ranges)+
  have dr: "1 \<le> DateFromTime l" "DateFromTime l \<le> 31"
    unfolding DateFromTime_def by (rule civil_from_days_ranges)+
  have yb: "1000 \<le> y" "y < 10000" "int y = YearFromTime l"
    using assms(1,2) unfolding y_def l_def by simp_all
  have mb: "m < 100" "int m = MonthFromTime l + 1" using mr unfolding m_def by simp_all
  have db: "d < 100" "int d = DateFromTime l" using dr unfolding d_def by simp_all
  have ys: "String_num (Some (YearFromTime l)) = [a, b, c, e]"
    using yb(3) assms(1) string_of_nat_4 [OF yb(1,2)]
    unfolding a_def b_def c_def e_def by (simp add: String_num_def y_def l_def)
  have ms: "padStart (String_num (Some (MonthFromTime l + 1))) 2 (CHR ''0'') = [f, g]"
    using mr pad_two_digits [OF mb(1)] unfolding f_def g_def
    by (simp add: String_num_def m_def)
  have dss: "padStart (String_num (Some (DateFromTime l))) 2 (CHR ''0'') = [h, k]"
    using dr pad_two_digits [OF db(1)] unfolding h_def k_def
    by (simp add: String_num_def d_def)
  have fmt: "formatDate tz (Some (TimeValue t)) = [a, b, c, e] @ ''-'' @ [f, g] @ ''-'' @ [h, k]"
    by (simp add: formatDate_def getFullYear_def getMonth_def getDate_def num_add_def Let_def
        l_def [symmetric] ys ms dss)
  have dg: "is_digit a" "is_digit b" "is_digit c" "is_digit e" "is_digit f" "is_digit g"
    "is_digit h" "is_digit k"
    unfolding a_def b_def c_def e_def f_def g_def h_def k_def
    using yb(2) mb(1) db(1) by (simp_all add: digit_char_props(1))
  have ty: "to_number [a, b, c, e] = YearFromTime l"
    unfolding a_def b_def c_def e_def using to_number_4 [OF yb(2)] yb(3) by simp
  have tm: "to_number [f, g] = MonthFromTime l + 1"
    unfolding f_def g_def using to_number_2 [OF mb(1)] mb(2) by simp
  have td: "to_number [h, k] = DateFromTime l"
    unfolding h_def k_def using to_number_2 [OF db(1)] db(2) by simp
  have sp: "\<not> is_space a" "\<not> is_space k"
    unfolding a_def k_def using yb(2) db(1) by (simp_all add: digit_char_props(3))
  have tr: "trim ([a, b, c, e] @ ''-'' @ [f, g] @ ''-'' @ [h, k])
      = [a, b, c, e] @ ''-'' @ [f, g] @ ''-'' @ [h, k]"
    by (rule trim_no_space) (use sp in simp_all)
  have mi: "match_iso ([a, b, c, e] @ ''-'' @ [f, g] @ ''-'' @ [h, k])
      = Some ([a, b, c, e], [f, g], [h, k])"
    by (rule match_iso_digits [OF dg])
  have pt: "parse_text tz native ([a, b, c, e] @ ''-'' @ [f, g] @ ''-'' @ [h, k]) =
      new_Date_ymd tz (Some (YearFromTime l)) (Some (MonthFromTime l)) (Some (DateFromTime l))"
    unfolding parse_text_def mi by (simp add: ty tm td)
  have nd: "new_Date_ymd tz (Some (YearFromTime l)) (Some (MonthFromTime l))
      (Some (DateFromTime l)) = TimeValue (dayStart tz t)"
    unfolding l_def by (rule new_Date_of_fields [OF assms])
  have "parseDate tz native (Str ([a, b, c, e] @ ''-'' @ [f, g] @ ''-'' @ [h, k]))
      = parse_text tz native (trim ([a, b, c, e] @ ''-'' @ [f, g] @ ''-'' @ [h, k]))"
    by (simp add: parseDate_def)
  then show ?thesis unfolding fmt tr pt nd .
qed


lemma fields_of_dayStart:
  "getFullYear tz (TimeValue (dayStart tz t)) = getFullYear tz (TimeValue t)"
  "getMonth tz (TimeValue (dayStart tz t)) = getMonth tz (TimeValue t)"
  "getDate tz (TimeValue (dayStart tz t)) = getDate tz (TimeValue t)"
  by (simp_all add: getFullYear_def getMonth_def getDate_def YearFromTime_def MonthFromTime_def
      DateFromTime_def Day_dayStart)

text \<open>
  Where \<open>formatDate\<close> writes four year digits, the round trip holds. For a Date whose
  local year is from 1000 to 9999, in a zone whose offset is at most a day,
  \<open>parseDate (formatDate d)\<close> is local midnight of \<open>d\<close>'s day, with the year, month and
  day of \<open>d\<close>. Whatever its input, a valid result of \<open>parseDate\<close> is at local
  midnight. A falsy input, the empty string, and a text that neither pattern matches
  and the engine's own parser rejects give an invalid Date; the function has no
  throwing branch.
\<close>

lemma four_digit_year_round_trip:
  "(1000 \<le> YearFromTime (LocalTime tz t) \<and> YearFromTime (LocalTime tz t) \<le> 9999
      \<and> abs tz \<le> msPerDay \<longrightarrow>
      parseDate tz native (Str (formatDate tz (Some (TimeValue t)))) = TimeValue (dayStart tz t)
      \<and> getFullYear tz (TimeValue (dayStart tz t)) = getFullYear tz (TimeValue t)
      \<and> getMonth tz (TimeValue (dayStart tz t)) = getMonth tz (TimeValue t)
      \<and> getDate tz (TimeValue (dayStart tz t)) = getDate tz (TimeValue t)
      \<and> TimeWithinDay (LocalTime tz (dayStart tz t)) = 0)
   \<and> (parseDate tz native v = TimeValue u \<longrightarrow> TimeWithinDay (LocalTime tz u) = 0)
   \<and> parseDate tz native Falsy = InvalidDate
   \<and> parseDate tz native (Str []) = InvalidDate
   \<and> (match_iso (trim s) = None \<and> match_slash (trim s) = None \<and> native (trim s) = InvalidDate
        \<longrightarrow> parseDate tz native (Str s) = InvalidDate
            \<and> parseDate tz native (Other s) = InvalidDate)"
proof (intro conjI impI)
  assume h: "1000 \<le> YearFromTime (LocalTime tz t) \<and> YearFromTime (LocalTime tz t) \<le> 9999
      \<and> abs tz \<le> msPerDay"
  show "parseDate tz native (Str (formatDate tz (Some (TimeValue t)))) = TimeValue (dayStart tz t)"
    using h by (intro parseDate_formatDate) simp_all
  show "getFullYear tz (TimeValue (dayStart tz t)) = getFullYear tz (TimeValue t)"
    "getMonth tz (TimeValue (dayStart tz t)) = getMonth tz (TimeValue t)"
    "getDate tz (TimeValue (dayStart tz t)) = getDate tz (TimeValue t)"
    by (rule fields_of_dayStart)+
  show "TimeWithinDay (LocalTime tz (dayStart tz t)) = 0"
    using TimeWithinDay_dayStart [of tz t] by (simp add: MakeTime_def)
next
  assume "parseDate tz native v = TimeValue u"
  then show "TimeWithinDay (LocalTime tz u) = 0" by (rule parseDate_midnight)
next
  show "parseDate tz native Falsy = InvalidDate" "parseDate tz native (Str []) = InvalidDate"
    by (simp_all add: parseDate_def)
next
  assume h: "match_iso (trim s) = None \<and> match_slash (trim s) = None
      \<and> native (trim s) = InvalidDate"
  then show "parseDate tz native (Str s) = InvalidDate" "parseDate tz native (Other s) = InvalidDate"
    using parseDate_unrecognised [of s native tz] by simp_all
qed


end
